theory Spec2Isabelle
  imports Complex_Main "HOL-Library.Sublist"
begin

section \<open>The hat editor: data model\<close>

text \<open>
  The editor component keeps its scene in React state cells and changes it from event
  handlers. The model below is a shallow embedding of that component: the state cells are
  the fields of one record, every handler is a function from the state (and the event's
  data) to the next state, and a handler reads the cells of the state it is given, as the
  handler's closure reads the cells of the render it was created in.

  A JavaScript \<open>number\<close> is an IEEE 754 double. A finite one is modelled as the real it
  denotes, and the arithmetic that computes a number the editor stores (the render
  dimensions, the placement of a new hat, and the position, rotation and scale that a
  pointer-move sets) rounds every result to the nearest double, as section \<open>Numbers\<close>
  defines. The values Infinity and NaN, which the program obtains by dividing by zero, are
  kept apart from the reals (type \<open>nonfinite\<close>): a computation that would store such a
  value in the scene returns it on the left of a sum instead of a state. Signed zeros are
  not distinguished. The geometry of the selection box and of the hit tests (the corners of
  a hat, the circle test and the box test), whose numbers are compared and drawn but not
  stored, is computed without rounding.
\<close>

record Hat =
  hat_id :: string
  hat_name :: string
  src :: string

text \<open>\<open>PlacedHat extends Hat\<close>; the fields \<open>x\<close> and \<open>y\<close> are named \<open>hx\<close> and \<open>hy\<close>.\<close>

record PlacedHat = Hat +
  uid :: string
  hx :: real
  hy :: real
  scale :: real
  rotation :: real
  isMirrored :: bool

text \<open>What the editor reads of an \<open>HTMLImageElement\<close>: its pixel width and height.\<close>

record HTMLImage =
  width :: nat
  height :: nat

datatype Mode = NONE | DRAG | ROTATE | SCALE

record StartInteraction =
  mouseX :: real
  mouseY :: real
  startRotation :: real
  startScale :: real
  startX :: real
  startY :: real

text \<open>The state cells of the component; the cell \<open>image\<close> is named \<open>bg_image\<close>.\<close>

record State =
  bg_image :: "HTMLImage option"
  hats :: "PlacedHat list"
  selectedHatId :: "string option"
  loadedImages :: "string \<rightharpoonup> HTMLImage"
  mode :: Mode
  startInteraction :: StartInteraction

definition initialState :: State where
  "initialState =
     \<lparr>bg_image = None, hats = [], selectedHatId = None, loadedImages = Map.empty,
      mode = NONE,
      startInteraction = \<lparr>mouseX = 0, mouseY = 0, startRotation = 0, startScale = 1,
                           startX = 0, startY = 0\<rparr>\<rparr>"

definition MIN_CANVAS_WIDTH :: nat where
  "MIN_CANVAS_WIDTH = 2048"

definition BASE_HANDLE_RADIUS :: real where
  "BASE_HANDLE_RADIUS = 12"

text \<open>
  \<open>if (selectedHatId)\<close> on a \<open>string | null\<close>: null and the empty string are falsy.
\<close>

definition truthy :: "string option \<Rightarrow> bool" where
  "truthy v = (case v of None \<Rightarrow> False | Some str \<Rightarrow> str \<noteq> [])"

section \<open>Numbers\<close>

text \<open>
  Rounding to the nearest double. \<open>rne\<close> rounds a real to the nearest integer, and a tie
  to the even one. \<open>fl64\<close> scales the magnitude of a number into the interval from
  \<open>2^52\<close> to \<open>2^53\<close>, rounds it there with \<open>rne\<close> and scales back: round to nearest,
  ties to even, with a significand of 53 bits. The range of the exponent is not bounded:
  overflow to Infinity (magnitudes from \<open>2^1024\<close>) and the subnormal numbers (magnitudes
  below \<open>2^-1022\<close>) are not modelled.
\<close>

definition rne :: "real \<Rightarrow> int" where
  "rne q =
     (let n = \<lfloor>q\<rfloor>; r = q - of_int n in
      if r < 1 / 2 then n else if 1 / 2 < r then n + 1 else if even n then n else n + 1)"

definition fl64 :: "real \<Rightarrow> real" where
  "fl64 v =
     (if v = 0 then 0
      else
        (let e = \<lfloor>log 2 \<bar>v\<bar>\<rfloor> - 52 in
         sgn v * (of_int (rne (\<bar>v\<bar> / 2 powi e)) * 2 powi e)))"

datatype nonfinite = PosInfinity | NegInfinity | NaN

text \<open>
  \<open>a / b\<close> where the divisor may be zero (a width, a distance), \<open>a * q\<close> and
  \<open>Math.max(a, q)\<close> for a finite \<open>a\<close> and a quotient \<open>q\<close>, as IEEE 754 and ECMAScript
  define them on Infinity and NaN; a finite quotient and a finite product are rounded.
\<close>

definition js_div :: "real \<Rightarrow> real \<Rightarrow> nonfinite + real" where
  "js_div a b =
     (if b \<noteq> 0 then Inr (fl64 (a / b))
      else if 0 < a then Inl PosInfinity
      else if a < 0 then Inl NegInfinity
      else Inl NaN)"

fun js_times :: "real \<Rightarrow> nonfinite + real \<Rightarrow> nonfinite + real" where
  "js_times a (Inr b) = Inr (fl64 (a * b))"
| "js_times a (Inl PosInfinity) =
     (if 0 < a then Inl PosInfinity else if a < 0 then Inl NegInfinity else Inl NaN)"
| "js_times a (Inl NegInfinity) =
     (if 0 < a then Inl NegInfinity else if a < 0 then Inl PosInfinity else Inl NaN)"
| "js_times a (Inl NaN) = Inl NaN"

fun js_max :: "real \<Rightarrow> nonfinite + real \<Rightarrow> nonfinite + real" where
  "js_max a (Inr b) = Inr (max a b)"
| "js_max a (Inl PosInfinity) = Inl PosInfinity"
| "js_max a (Inl NegInfinity) = Inr a"
| "js_max a (Inl NaN) = Inl NaN"

text \<open>
  The angle of the vector \<open>(x, y)\<close> in \<open>(-\<pi>, \<pi>]\<close>, and 0 at the origin: the exact
  value that \<open>Math.atan2(y, x)\<close> approximates.
\<close>

definition atan2 :: "real \<Rightarrow> real \<Rightarrow> real" where
  "atan2 y x =
     (if 0 < x then arctan (y / x)
      else if x < 0 then (if 0 \<le> y then arctan (y / x) + pi else arctan (y / x) - pi)
      else if 0 < y then pi / 2
      else if y < 0 then - (pi / 2)
      else 0)"

text \<open>
  The constant and the functions of \<open>Math\<close> that the handlers use. \<open>Math.PI\<close> is the
  double nearest to \<open>\<pi>\<close> and \<open>Math.sqrt\<close> is correctly rounded. \<open>Math.atan2\<close> and
  \<open>Math.pow(v, 2)\<close> are taken to return the double nearest to the exact result as well
  (ECMAScript leaves their last bit to the implementation).
\<close>

definition Math_PI :: real where
  "Math_PI = fl64 pi"

definition Math_atan2 :: "real \<Rightarrow> real \<Rightarrow> real" where
  "Math_atan2 y x = fl64 (atan2 y x)"

definition Math_sqrt :: "real \<Rightarrow> real" where
  "Math_sqrt v = fl64 (sqrt v)"

definition Math_pow2 :: "real \<Rightarrow> real" where
  "Math_pow2 v = fl64 (v * v)"

section \<open>Render dimensions and loading a background\<close>

text \<open>
  \<open>getRenderDimensions\<close>: the image's own size when it is at least 2048 wide, and
  otherwise width 2048 and the height multiplied by \<open>2048 / img.width\<close> (the quotient is
  rounded, and then the product).
\<close>

definition getRenderDimensions :: "HTMLImage \<Rightarrow> nonfinite + (real \<times> real)" where
  "getRenderDimensions img =
     (if width img \<ge> MIN_CANVAS_WIDTH then Inr (real (width img), real (height img))
      else
        (case js_times (real (height img)) (js_div (real MIN_CANVAS_WIDTH) (real (width img))) of
           Inl e \<Rightarrow> Inl e
         | Inr h \<Rightarrow> Inr (real MIN_CANVAS_WIDTH, h)))"

text \<open>
  \<open>processFile\<close>: a file whose type does not start with \<open>image/\<close> is ignored. The reader
  and the decoder run outside the component: \<open>decoded\<close> is the image whose \<open>onload\<close>
  fires, or \<open>None\<close> when no \<open>onload\<close> fires (nothing is done then).
\<close>

definition processFile :: "State \<Rightarrow> string \<Rightarrow> HTMLImage option \<Rightarrow> State" where
  "processFile s file_type decoded =
     (if \<not> prefix ''image/'' file_type then s
      else
        (case decoded of
           None \<Rightarrow> s
         | Some img \<Rightarrow> s\<lparr>bg_image := Some img, hats := [], selectedHatId := None\<rparr>))"

section \<open>The asset cache and adding a hat\<close>

text \<open>
  \<open>loadHatImage(src)\<close> returns a promise. When \<open>loadedImages[src]\<close> is set the promise
  resolves with that image; otherwise a new \<open>Image\<close> is created and its \<open>src\<close> assigned,
  which starts a fetch and decode of the resource. The decode ends later, in another
  event: \<open>onload\<close> stores the image under \<open>src\<close> and resolves the promise, \<open>onerror\<close>
  rejects it.
\<close>

datatype load_start = Resolved HTMLImage | Decoding

definition loadHatImage :: "State \<Rightarrow> string \<Rightarrow> load_start" where
  "loadHatImage s path =
     (case loadedImages s path of Some img \<Rightarrow> Resolved img | None \<Rightarrow> Decoding)"

definition hatImageOnload :: "State \<Rightarrow> string \<Rightarrow> HTMLImage \<Rightarrow> State" where
  "hatImageOnload s path img = s\<lparr>loadedImages := (loadedImages s)(path \<mapsto> img)\<rparr>"

text \<open>
  The events of the cache, in the order the single thread runs them. \<open>asset_run\<close> runs a
  sequence of them and logs the path of every \<open>Image\<close> it creates, that is of every
  decode it starts.
\<close>

datatype asset_event = Request string | Onload string HTMLImage | Onerror string

fun asset_run :: "State \<Rightarrow> string list \<Rightarrow> asset_event list \<Rightarrow> State \<times> string list" where
  "asset_run s decodes [] = (s, decodes)"
| "asset_run s decodes (Request path # es) =
     (case loadHatImage s path of
        Resolved img \<Rightarrow> asset_run s decodes es
      | Decoding \<Rightarrow> asset_run s (decodes @ [path]) es)"
| "asset_run s decodes (Onload path img # es) = asset_run (hatImageOnload s path img) decodes es"
| "asset_run s decodes (Onerror path # es) = asset_run s decodes es"

text \<open>\<open>Date.now().toString()\<close>: the decimal digits of a natural number.\<close>

fun toString_nat :: "nat \<Rightarrow> string" where
  "toString_nat n =
     (if n < 10 then [char_of (48 + n)]
      else toString_nat (n div 10) @ [char_of (48 + n mod 10)])"

declare toString_nat.simps [simp del]

text \<open>
  The callback that runs when the promise of \<open>loadHatImage\<close> resolves with \<open>img\<close>. The
  clock and the random numbers are inputs: \<open>now\<close> is \<open>Date.now()\<close>, \<open>rnd\<close> is
  \<open>Math.random().toString()\<close>, and \<open>r1\<close>, \<open>r2\<close> are the two later values of
  \<open>Math.random()\<close>, read only when there is a hat already. The literal \<open>0.35\<close> is the
  double nearest to it, \<open>fl64 0.35\<close>.
\<close>

definition newPlacedHat :: "Hat \<Rightarrow> string \<Rightarrow> real \<Rightarrow> real \<Rightarrow> real \<Rightarrow> PlacedHat" where
  "newPlacedHat hatToAdd newUid initialX initialY initialScale =
     \<lparr>hat_id = hat_id hatToAdd, hat_name = hat_name hatToAdd, src = src hatToAdd,
      uid = newUid, hx = initialX, hy = initialY, scale = initialScale,
      rotation = 0, isMirrored = False\<rparr>"

definition placeHat ::
  "State \<Rightarrow> Hat \<Rightarrow> HTMLImage \<Rightarrow> nat \<Rightarrow> string \<Rightarrow> real \<Rightarrow> real \<Rightarrow> nonfinite + State" where
  "placeHat s hatToAdd img now rnd r1 r2 =
     (let newUid = toString_nat now @ drop 2 rnd in
      case bg_image s of
        None \<Rightarrow>
          Inr (s\<lparr>hats := hats s @ [newPlacedHat hatToAdd newUid 400 300 1],
                 selectedHatId := Some newUid\<rparr>)
      | Some bg \<Rightarrow>
          (case getRenderDimensions bg of
             Inl e \<Rightarrow> Inl e
           | Inr (cvsW, cvsH) \<Rightarrow>
               (let targetWidth = fl64 (cvsW * fl64 0.35) in
                case js_div targetWidth (real (width img)) of
                  Inl e \<Rightarrow> Inl e
                | Inr initialScale \<Rightarrow>
                    (let initialX = fl64 (cvsW / 2);
                         initialY = fl64 (cvsH / 3);
                         jitter = length (hats s) > 0;
                         initialX = (if jitter then fl64 (initialX + fl64 (fl64 (r1 - 0.5) * 40))
                                     else initialX);
                         initialY = (if jitter then fl64 (initialY + fl64 (fl64 (r2 - 0.5) * 40))
                                     else initialY)
                     in Inr (s\<lparr>hats := hats s @
                                  [newPlacedHat hatToAdd newUid initialX initialY initialScale],
                               selectedHatId := Some newUid\<rparr>)))))"

text \<open>
  The whole effect that adds a hat, as one step: the request, the end of the decode when
  one was started (\<open>decoded = None\<close> is \<open>onerror\<close>: the promise rejects and nothing is
  added), and the callback.
\<close>

definition addHat ::
  "State \<Rightarrow> Hat \<Rightarrow> HTMLImage option \<Rightarrow> nat \<Rightarrow> string \<Rightarrow> real \<Rightarrow> real \<Rightarrow> nonfinite + State" where
  "addHat s hatToAdd decoded now rnd r1 r2 =
     (case loadHatImage s (src hatToAdd) of
        Resolved img \<Rightarrow> placeHat s hatToAdd img now rnd r1 r2
      | Decoding \<Rightarrow>
          (case decoded of
             None \<Rightarrow> Inr s
           | Some img \<Rightarrow>
               placeHat (hatImageOnload s (src hatToAdd) img) hatToAdd img now rnd r1 r2))"

section \<open>Geometry\<close>

record Corners =
  tl_corner :: "real \<times> real"
  tr_corner :: "real \<times> real"
  br_corner :: "real \<times> real"
  bl_corner :: "real \<times> real"
  box_width :: real
  box_height :: real

text \<open>
  The local helper \<open>rotatePoint\<close> of \<open>getTransformedCorners\<close>, with the values it closes
  over (\<open>cos\<close>, \<open>sin\<close>, \<open>cx\<close>, \<open>cy\<close>) as its first arguments.
\<close>

definition rotatePoint :: "real \<Rightarrow> real \<Rightarrow> real \<Rightarrow> real \<Rightarrow> real \<Rightarrow> real \<Rightarrow> real \<times> real" where
  "rotatePoint cs sn cx cy px py = (px * cs - py * sn + cx, px * sn + py * cs + cy)"

definition getTransformedCorners :: "(string \<rightharpoonup> HTMLImage) \<Rightarrow> PlacedHat \<Rightarrow> Corners option" where
  "getTransformedCorners loaded hat =
     (case loaded (src hat) of
        None \<Rightarrow> None
      | Some img \<Rightarrow>
          (let w = real (width img) * scale hat;
               h = real (height img) * scale hat;
               rad = (rotation hat * pi) / 180;
               cs = cos rad;
               sn = sin rad;
               cx = hx hat;
               cy = hy hat;
               tr = rotatePoint cs sn cx cy (w / 2) (- h / 2);
               br = rotatePoint cs sn cx cy (w / 2) (h / 2);
               bl = rotatePoint cs sn cx cy (- w / 2) (h / 2);
               tl = rotatePoint cs sn cx cy (- w / 2) (- h / 2)
           in Some \<lparr>tl_corner = tl, tr_corner = tr, br_corner = br, bl_corner = bl,
                     box_width = w, box_height = h\<rparr>))"

definition isPointInCircle :: "real \<Rightarrow> real \<Rightarrow> real \<Rightarrow> real \<Rightarrow> real \<Rightarrow> bool" where
  "isPointInCircle px py cx cy radius = (sqrt ((px - cx)\<^sup>2 + (py - cy)\<^sup>2) \<le> radius)"




section \<open>Pointer handlers\<close>

text \<open>
  The handlers take the pointer in canvas coordinates (\<open>x\<close>, \<open>y\<close>, the result of
  \<open>getCanvasCoords\<close>) and the factor \<open>uiScale\<close> (the result of \<open>getUiScale\<close>); both are
  computed from the layout of the page.
\<close>

definition deleteSelectedHat :: "State \<Rightarrow> State" where
  "deleteSelectedHat s =
     (if truthy (selectedHatId s)
      then s\<lparr>hats := filter (\<lambda>h. Some (uid h) \<noteq> selectedHatId s) (hats s),
             selectedHatId := None, mode := NONE\<rparr>
      else s)"

definition captureStart :: "real \<Rightarrow> real \<Rightarrow> PlacedHat \<Rightarrow> StartInteraction" where
  "captureStart x y hat =
     \<lparr>mouseX = x, mouseY = y, startRotation = rotation hat, startScale = scale hat,
      startX = hx hat, startY = hy hat\<rparr>"

text \<open>
  Step 1 of \<open>handleMouseDown\<close>, the controls of the selected hat. \<open>Some s'\<close> is a
  \<open>return\<close> with the state \<open>s'\<close>; \<open>None\<close> is falling through to step 2.
\<close>

definition checkControls :: "State \<Rightarrow> real \<Rightarrow> real \<Rightarrow> real \<Rightarrow> State option" where
  "checkControls s x y hitRadius =
     (if truthy (selectedHatId s) then
        (case find (\<lambda>h. Some (uid h) = selectedHatId s) (hats s) of
           None \<Rightarrow> None
         | Some hat \<Rightarrow>
             (case getTransformedCorners (loadedImages s) hat of
                None \<Rightarrow> None
              | Some corners \<Rightarrow>
                  if isPointInCircle x y (fst (tl_corner corners)) (snd (tl_corner corners)) hitRadius
                  then Some (deleteSelectedHat s)
                  else if isPointInCircle x y (fst (tr_corner corners)) (snd (tr_corner corners)) hitRadius
                  then Some (s\<lparr>mode := ROTATE, startInteraction := captureStart x y hat\<rparr>)
                  else if isPointInCircle x y (fst (br_corner corners)) (snd (br_corner corners)) hitRadius
                  then Some (s\<lparr>mode := SCALE, startInteraction := captureStart x y hat\<rparr>)
                  else if isPointInCircle x y (fst (bl_corner corners)) (snd (bl_corner corners)) hitRadius
                  then Some (s\<lparr>hats := map (\<lambda>h. if Some (uid h) = selectedHatId s
                                                  then h\<lparr>isMirrored := \<not> isMirrored h\<rparr> else h)
                                           (hats s)\<rparr>)
                  else None))
      else None)"

text \<open>The test of step 2 on one hat whose image is loaded.\<close>

definition hatHit :: "HTMLImage \<Rightarrow> PlacedHat \<Rightarrow> real \<Rightarrow> real \<Rightarrow> bool" where
  "hatHit img hat x y =
     (let dx = x - hx hat;
          dy = y - hy hat;
          rad = (- rotation hat * pi) / 180;
          localX = dx * cos rad - dy * sin rad;
          localY = dx * sin rad + dy * cos rad;
          w = real (width img) * scale hat;
          h = real (height img) * scale hat
      in localX \<ge> - w / 2 \<and> localX \<le> w / 2 \<and> localY \<ge> - h / 2 \<and> localY \<le> h / 2)"

text \<open>
  The loop \<open>for (i = hats.length - 1; i >= 0; i--)\<close>: the last argument is \<open>i + 1\<close>. The
  result is the hat at which the loop returns, if it does.
\<close>

fun hitLoop :: "(string \<rightharpoonup> HTMLImage) \<Rightarrow> PlacedHat list \<Rightarrow> real \<Rightarrow> real \<Rightarrow> nat \<Rightarrow> PlacedHat option" where
  "hitLoop loaded hs x y 0 = None"
| "hitLoop loaded hs x y (Suc i) =
     (let hat = hs ! i in
      case loaded (src hat) of
        None \<Rightarrow> hitLoop loaded hs x y i
      | Some img \<Rightarrow> if hatHit img hat x y then Some hat else hitLoop loaded hs x y i)"

definition handleMouseDown :: "State \<Rightarrow> real \<Rightarrow> real \<Rightarrow> real \<Rightarrow> State" where
  "handleMouseDown s x y uiScale =
     (case bg_image s of
        None \<Rightarrow> s
      | Some bg \<Rightarrow>
          (let hitRadius = BASE_HANDLE_RADIUS * uiScale * 1.5 in
           case checkControls s x y hitRadius of
             Some s' \<Rightarrow> s'
           | None \<Rightarrow>
               (case hitLoop (loadedImages s) (hats s) x y (length (hats s)) of
                  Some hat \<Rightarrow>
                    s\<lparr>selectedHatId := Some (uid hat),
                      hats := filter (\<lambda>h. uid h \<noteq> uid hat) (hats s) @ [hat],
                      mode := DRAG,
                      startInteraction := captureStart x y hat\<rparr>
                | None \<Rightarrow> s\<lparr>selectedHatId := None\<rparr>)))"

text \<open>
  The function mapped over the hats by \<open>handleMouseMove\<close>; every difference, sum, product
  and quotient is rounded. In mode \<open>SCALE\<close> the new scale is
  \<open>Math.max(0.1, startScale * (dist / startDist))\<close>, which is Infinity or NaN when
  \<open>startDist\<close> is 0; the literal \<open>0.1\<close> is the double nearest to it, \<open>fl64 0.1\<close>.
\<close>

definition moveHat :: "State \<Rightarrow> real \<Rightarrow> real \<Rightarrow> PlacedHat \<Rightarrow> nonfinite + PlacedHat" where
  "moveHat s x y hat =
     (if Some (uid hat) \<noteq> selectedHatId s then Inr hat
      else
        (case mode s of
           DRAG \<Rightarrow>
             (let dx = fl64 (x - mouseX (startInteraction s));
                  dy = fl64 (y - mouseY (startInteraction s))
              in Inr (hat\<lparr>hx := fl64 (startX (startInteraction s) + dx),
                           hy := fl64 (startY (startInteraction s) + dy)\<rparr>))
         | ROTATE \<Rightarrow>
             (let dx = fl64 (x - hx hat);
                  dy = fl64 (y - hy hat);
                  angle = fl64 (Math_atan2 dy dx * fl64 (180 / Math_PI));
                  startDx = fl64 (mouseX (startInteraction s) - hx hat);
                  startDy = fl64 (mouseY (startInteraction s) - hy hat);
                  startAngle = fl64 (Math_atan2 startDy startDx * fl64 (180 / Math_PI))
              in Inr (hat\<lparr>rotation :=
                           fl64 (startRotation (startInteraction s) + fl64 (angle - startAngle))\<rparr>))
         | SCALE \<Rightarrow>
             (let dist = Math_sqrt (fl64 (Math_pow2 (fl64 (x - hx hat))
                                          + Math_pow2 (fl64 (y - hy hat))));
                  startDist = Math_sqrt (fl64 (Math_pow2 (fl64 (mouseX (startInteraction s) - hx hat))
                                               + Math_pow2 (fl64 (mouseY (startInteraction s) - hy hat))));
                  newScale = js_times (startScale (startInteraction s)) (js_div dist startDist)
              in case js_max (fl64 0.1) newScale of
                   Inl e \<Rightarrow> Inl e
                 | Inr v \<Rightarrow> Inr (hat\<lparr>scale := v\<rparr>))
         | NONE \<Rightarrow> Inr hat))"

text \<open>\<open>prev.map(f)\<close> for an \<open>f\<close> that may produce a value that is not a real.\<close>

fun mapE :: "('a \<Rightarrow> 'e + 'b) \<Rightarrow> 'a list \<Rightarrow> 'e + 'b list" where
  "mapE f [] = Inr []"
| "mapE f (a # as) =
     (case f a of
        Inl e \<Rightarrow> Inl e
      | Inr b \<Rightarrow> (case mapE f as of Inl e \<Rightarrow> Inl e | Inr bs \<Rightarrow> Inr (b # bs)))"

definition handleMouseMove :: "State \<Rightarrow> real \<Rightarrow> real \<Rightarrow> nonfinite + State" where
  "handleMouseMove s x y =
     (if mode s = NONE \<or> \<not> truthy (selectedHatId s) then Inr s
      else
        (case mapE (moveHat s x y) (hats s) of
           Inl e \<Rightarrow> Inl e
         | Inr hs \<Rightarrow> Inr (s\<lparr>hats := hs\<rparr>)))"

definition handleMouseUp :: "State \<Rightarrow> State" where
  "handleMouseUp s = s\<lparr>mode := NONE\<rparr>"

section \<open>Rendering and export\<close>

text \<open>
  What \<open>draw(showControls)\<close> leaves on the canvas, as far as the scene decides it: the
  background, the hats drawn (those whose image is loaded, in order) and the corners of
  the selection box with its four handles, when they are drawn. The resizing of the
  canvas and the pixels are not modelled.
\<close>

record Frame =
  frame_bg :: "HTMLImage option"
  frame_hats :: "PlacedHat list"
  frame_controls :: "Corners option"

definition draw :: "State \<Rightarrow> bool \<Rightarrow> Frame" where
  "draw s showControls =
     \<lparr>frame_bg = bg_image s,
      frame_hats = filter (\<lambda>hat. loadedImages s (src hat) \<noteq> None) (hats s),
      frame_controls =
        (if showControls \<and> bg_image s \<noteq> None \<and> truthy (selectedHatId s) then
           (case find (\<lambda>h. Some (uid h) = selectedHatId s) (hats s) of
              None \<Rightarrow> None
            | Some selectedHat \<Rightarrow> getTransformedCorners (loadedImages s) selectedHat)
         else None)\<rparr>"

text \<open>
  The canvas is the content of \<open>canvasRef.current\<close>: \<open>None\<close> when there is no canvas
  element. \<open>handleDownload\<close> returns the canvas afterwards and the picture handed to the
  download link, if any. \<open>canvas.toDataURL\<close> is taken to return: it throws only for a
  canvas that holds an image of another origin, and the editor draws the background from a
  data URL and the hats from paths of its own site.
\<close>

definition handleDownload :: "State \<Rightarrow> Frame option \<Rightarrow> Frame option \<times> Frame option" where
  "handleDownload s canvas =
     (case canvas of
        None \<Rightarrow> (None, None)
      | Some c \<Rightarrow>
          if bg_image s = None then (Some c, None)
          else
            (let c1 = draw s False;
                 href = c1;
                 c2 = draw s True
             in (Some c2, Some href)))"

text \<open>
  The \<open>try\<close> block of \<open>handleCopy\<close>. The platform decides whether \<open>toBlob\<close> yields a blob
  (\<open>encoded\<close>) and whether \<open>navigator.clipboard.write\<close> resolves (\<open>written\<close>); \<open>Inl\<close> is
  the exception thrown.
\<close>

definition copyTry :: "Frame \<Rightarrow> bool \<Rightarrow> bool \<Rightarrow> string + Frame" where
  "copyTry c encoded written =
     (if \<not> encoded then Inl ''Failed to create blob''
      else if \<not> written then Inl ''clipboard write rejected''
      else Inr c)"

text \<open>
  \<open>handleCopy\<close> is an \<open>async\<close> function: its promise is fulfilled with a boolean or
  rejected with an exception. The result is the settled promise, the canvas afterwards
  and the picture on the clipboard, if any.
\<close>

datatype 'a settled = Fulfilled 'a | Rejected string

definition handleCopy ::
  "State \<Rightarrow> Frame option \<Rightarrow> bool \<Rightarrow> bool \<Rightarrow> bool settled \<times> Frame option \<times> Frame option" where
  "handleCopy s canvas encoded written =
     (case canvas of
        None \<Rightarrow> (Fulfilled False, None, None)
      | Some c \<Rightarrow>
          if bg_image s = None then (Fulfilled False, Some c, None)
          else
            (let c1 = draw s False in
             case copyTry c1 encoded written of
               Inr blob \<Rightarrow> (Fulfilled True, Some (draw s True), Some blob)
             | Inl err \<Rightarrow> (Fulfilled False, Some (draw s True), None)))"

section \<open>The states the editor can reach\<close>

inductive reachable :: "State \<Rightarrow> bool" where
  r_init: "reachable initialState"
| r_load: "reachable s \<Longrightarrow> reachable (processFile s file_type decoded)"
| r_add: "reachable s \<Longrightarrow> addHat s hatToAdd decoded now rnd r1 r2 = Inr s' \<Longrightarrow> reachable s'"
| r_down: "reachable s \<Longrightarrow> reachable (handleMouseDown s x y uiScale)"
| r_move: "reachable s \<Longrightarrow> handleMouseMove s x y = Inr s' \<Longrightarrow> reachable s'"
| r_up: "reachable s \<Longrightarrow> reachable (handleMouseUp s)"
| r_delete: "reachable s \<Longrightarrow> reachable (deleteSelectedHat s)"

text \<open>
  The events of the canvas element (mouse and touch handlers) and a run of them. The run
  stops with the value that is not a real when a move produces one.
\<close>

datatype canvas_event = PointerDown real real real | PointerMove real real | PointerUp

fun canvas_run :: "State \<Rightarrow> canvas_event list \<Rightarrow> nonfinite + State" where
  "canvas_run s [] = Inr s"
| "canvas_run s (PointerDown x y uiScale # es) = canvas_run (handleMouseDown s x y uiScale) es"
| "canvas_run s (PointerMove x y # es) =
     (case handleMouseMove s x y of Inl e \<Rightarrow> Inl e | Inr s' \<Rightarrow> canvas_run s' es)"
| "canvas_run s (PointerUp # es) = canvas_run (handleMouseUp s) es"

section \<open>Notions used in the statements\<close>

subsection \<open>The invariant of the selection\<close>

definition uids :: "State \<Rightarrow> string list" where
  "uids s = map uid (hats s)"

text \<open>No placed hat has an empty \<open>uid\<close>, and the selected \<open>uid\<close> is that of a placed hat.\<close>

definition selectionInv :: "State \<Rightarrow> bool" where
  "selectionInv s =
     ([] \<notin> set (uids s)
      \<and> (case selectedHatId s of None \<Rightarrow> True | Some u \<Rightarrow> u \<in> set (uids s)))"

subsection \<open>Distances, the scale and the angle of a gesture\<close>

text \<open>
  The distance of the pointer from the centre of a hat as the program computes it,
  \<open>Math.sqrt(Math.pow(x - hat.x, 2) + Math.pow(y - hat.y, 2))\<close>, and the scale that the
  specification gives a hat for a move in mode \<open>SCALE\<close>,
  \<open>max(0.1, baselineScale * (currentDistance / baselineDistance))\<close>, in double
  arithmetic.
\<close>

definition centerDist :: "PlacedHat \<Rightarrow> real \<Rightarrow> real \<Rightarrow> real" where
  "centerDist hat x y =
     fl64 (sqrt (fl64 (fl64 (fl64 (x - hx hat) * fl64 (x - hx hat))
                       + fl64 (fl64 (y - hy hat) * fl64 (y - hy hat)))))"

definition scaleAt :: "State \<Rightarrow> PlacedHat \<Rightarrow> real \<Rightarrow> real \<Rightarrow> real" where
  "scaleAt s hat x y =
     max (fl64 0.1)
         (fl64 (startScale (startInteraction s)
                * fl64 (centerDist hat x y
                        / centerDist hat (mouseX (startInteraction s)) (mouseY (startInteraction s)))))"

text \<open>
  The angle, in degrees, of the pointer as seen from the centre of a hat, as the program
  computes it: \<open>Math.atan2(y - hat.y, x - hat.x) * (180 / Math.PI)\<close>.
\<close>

definition pointerAngle :: "PlacedHat \<Rightarrow> real \<Rightarrow> real \<Rightarrow> real" where
  "pointerAngle hat x y =
     fl64 (fl64 (atan2 (fl64 (y - hy hat)) (fl64 (x - hx hat))) * fl64 (180 / fl64 pi))"

subsection \<open>The words of the specification for a pointer-down\<close>






section \<open>Example scenes\<close>

text \<open>The first entry of \<open>STATIC_HATS\<close>, and a raster of 100 by 40 pixels for it.\<close>

definition hat1 :: Hat where
  "hat1 = \<lparr>hat_id = ''hat-1'', hat_name = ''1'', src = ''/hats/1.png''\<rparr>"

definition raster_100x40 :: HTMLImage where
  "raster_100x40 = \<lparr>width = 100, height = 40\<rparr>"

text \<open>The scene after adding \<open>hat1\<close> to the initial state, before any background.\<close>

definition sceneNoBackground :: State where
  "sceneNoBackground =
     initialState\<lparr>hats := [newPlacedHat hat1 ''17001234'' 400 300 1],
                   selectedHatId := Some ''17001234'',
                   loadedImages := [''/hats/1.png'' \<mapsto> raster_100x40]\<rparr>"

text \<open>A scene with a background and two hats; the upper one is selected.\<close>

definition placedA :: PlacedHat where
  "placedA = newPlacedHat hat1 ''17001234'' 1000 1000 1"

definition placedB :: PlacedHat where
  "placedB = newPlacedHat hat1 ''17015678'' 1500 1500 1"

definition sceneTwoHats :: State where
  "sceneTwoHats =
     \<lparr>bg_image = Some \<lparr>width = 2048, height = 2048\<rparr>,
      hats = [placedA, placedB],
      selectedHatId = Some ''17015678'',
      loadedImages = [''/hats/1.png'' \<mapsto> raster_100x40],
      mode = NONE,
      startInteraction = \<lparr>mouseX = 0, mouseY = 0, startRotation = 0, startScale = 1,
                           startX = 0, startY = 0\<rparr>\<rparr>"

text \<open>The scene after a pointer-down on the scale handle of the selected hat.\<close>

definition sceneScaling :: State where
  "sceneScaling =
     sceneTwoHats\<lparr>mode := SCALE,
                    startInteraction := \<lparr>mouseX = 1540, mouseY = 1530, startRotation = 0,
                                          startScale = 1, startX = 1500, startY = 1500\<rparr>\<rparr>"

text \<open>The scene after the selected hat was turned by -90 degrees with its rotate handle.\<close>

definition placedB_turned :: PlacedHat where
  "placedB_turned = placedB\<lparr>rotation := - 90\<rparr>"

definition sceneTurned :: State where
  "sceneTurned =
     sceneTwoHats\<lparr>startInteraction := \<lparr>mouseX = 1540, mouseY = 1500, startRotation = 0,
                                          startScale = 1, startX = 1500, startY = 1500\<rparr>,
                    hats := [placedA, placedB_turned]\<rparr>"

text \<open>
  The scene in which the selected hat has rotation 0.1 (the double nearest to it), and the
  scene after a rotate gesture that took the pointer from the east of its centre to the
  north: the rotation is then the double nearest to \<open>0.1 - 90\<close>.
\<close>

definition placedB_tilted :: PlacedHat where
  "placedB_tilted = placedB\<lparr>rotation := 3602879701896397 / 36028797018963968\<rparr>"

definition placedB_back :: PlacedHat where
  "placedB_back = placedB\<lparr>rotation := - (3163075050785997 / 35184372088832)\<rparr>"

definition sceneTilted :: State where
  "sceneTilted = sceneTwoHats\<lparr>hats := [placedA, placedB_tilted]\<rparr>"

definition sceneTiltedTurned :: State where
  "sceneTiltedTurned =
     sceneTilted\<lparr>startInteraction :=
                     \<lparr>mouseX = 1540, mouseY = 1500,
                      startRotation = 3602879701896397 / 36028797018963968,
                      startScale = 1, startX = 1500, startY = 1500\<rparr>,
                  hats := [placedA, placedB_back]\<rparr>"



text \<open>
  A scene in mode \<open>SCALE\<close> whose selected hat was added during the gesture: the first hat
  was added, dragged to (666, 540), which puts its scale handle next to the point
  (1024, 2048 / 3) where a new hat is placed, and pressed at that point; then the second
  hat arrived, with both random numbers 0.5, at that very point. The numbers are the
  doubles that the program computes: \<open>2048 / 3\<close> is \<open>6004799503160661 / 2^43\<close> and the
  scale \<open>(2048 * 0.35) / 100\<close> is \<open>1008806316530991 / 2^47\<close>.
\<close>

definition firstHat :: PlacedHat where
  "firstHat = newPlacedHat hat1 ''17001234'' 1024 (6004799503160661 / 8796093022208)
                (1008806316530991 / 140737488355328)"

definition draggedHat :: PlacedHat where
  "draggedHat = firstHat\<lparr>hx := 666, hy := 540\<rparr>"

definition lateHat :: PlacedHat where
  "lateHat = newPlacedHat hat1 ''17015678'' 1024 (6004799503160661 / 8796093022208)
               (1008806316530991 / 140737488355328)"

definition sceneLateHat :: State where
  "sceneLateHat =
     \<lparr>bg_image = Some \<lparr>width = 512, height = 512\<rparr>,
      hats = [draggedHat, lateHat],
      selectedHatId = Some ''17015678'',
      loadedImages = [''/hats/1.png'' \<mapsto> raster_100x40],
      mode = SCALE,
      startInteraction =
        \<lparr>mouseX = 1024, mouseY = 6004799503160661 / 8796093022208, startRotation = 0,
         startScale = 1008806316530991 / 140737488355328, startX = 666, startY = 540\<rparr>\<rparr>"

section \<open>Facts about the model\<close>

subsection \<open>Rounding to the nearest double\<close>

lemma rne_of_int: "rne (of_int n) = n"
  by (simp add: rne_def)

lemma rne_cases: "rne q = \<lfloor>q\<rfloor> \<or> rne q = \<lfloor>q\<rfloor> + 1"
  by (simp add: rne_def Let_def)

lemma rne_near: "\<bar>of_int (rne q) - q\<bar> \<le> 1/2"
  unfolding rne_def Let_def by (auto; linarith)

lemma rne_mono:
  assumes "q \<le> q'" shows "rne q \<le> rne q'"
proof (cases "\<lfloor>q\<rfloor> = \<lfloor>q'\<rfloor>")
  case True
  then show ?thesis using assms unfolding rne_def Let_def by auto
next
  case False
  then have "\<lfloor>q\<rfloor> < \<lfloor>q'\<rfloor>" using assms floor_mono [of q q'] by linarith
  then have "\<lfloor>q\<rfloor> + 1 \<le> \<lfloor>q'\<rfloor>" by simp
  moreover have "rne q \<le> \<lfloor>q\<rfloor> + 1" using rne_cases [of q] by auto
  moreover have "\<lfloor>q'\<rfloor> \<le> rne q'" using rne_cases [of q'] by auto
  ultimately show ?thesis by linarith
qed

lemma rne_bounds:
  assumes "of_int a \<le> q" "q \<le> of_int b"
  shows "a \<le> rne q \<and> rne q \<le> b"
  using rne_mono [OF assms(1)] rne_mono [OF assms(2)] by (simp add: rne_of_int)

lemma floor_log2:
  assumes "2 powi k \<le> x" "x < 2 powi (k + 1)"
  shows "\<lfloor>log 2 x\<rfloor> = k"
proof -
  have pos: "0 < x" using assms(1) zero_less_power_int [of "2::real" k] by linarith
  have a: "(2::real) powr (of_int k) = 2 powi k" by (simp add: powr_real_of_int')
  have b: "(2::real) powr (of_int k + 1) = 2 powi (k + 1)"
    using powr_real_of_int' [of "2::real" "k + 1"] by simp
  show ?thesis using floor_log_eq_powr_iff [of x 2 k] pos assms a b by simp
qed

lemma log2_binade:
  assumes "0 < x"
  shows "2 powi \<lfloor>log 2 x\<rfloor> \<le> x \<and> x < 2 powi (\<lfloor>log 2 x\<rfloor> + 1)"
proof -
  have a: "(2::real) powr (of_int k) = 2 powi k" for k by (simp add: powr_real_of_int')
  have b: "(2::real) powr (of_int k + 1) = 2 powi (k + 1)" for k
    using powr_real_of_int' [of "2::real" "k + 1"] by simp
  show ?thesis using floor_log_eq_powr_iff [of x 2 "\<lfloor>log 2 x\<rfloor>"] assms a b by simp
qed

lemma fl64_pos_eval:
  assumes "2 powi k \<le> x" "x < 2 powi (k + 1)"
  shows "fl64 x = of_int (rne (x / 2 powi (k - 52))) * 2 powi (k - 52)"
proof -
  have pos: "0 < x" using assms(1) zero_less_power_int [of "2::real" k] by linarith
  show ?thesis using pos floor_log2 [OF assms] by (simp add: fl64_def Let_def)
qed

lemma fl64_0: "fl64 0 = 0"
  by (simp add: fl64_def Let_def)

lemma fl64_minus: "fl64 (- x) = - fl64 x"
  by (simp add: fl64_def Let_def sgn_minus)

lemma pow2_shift: "(2::real) powi (e + int n) = 2 ^ n * 2 powi e"
  using power_int_add [of "2::real" "int n" e] by (simp add: add.commute)

lemma pow2_split: "(2::real) powi k = 2 ^ 52 * 2 powi (k - 52)"
  using pow2_shift [of "k - 52" 52] by simp

lemma pow2_split1: "(2::real) powi (k + 1) = 2 ^ 53 * 2 powi (k - 52)"
proof -
  have "k + 1 = k - 52 + int 53" by simp
  then show ?thesis using pow2_shift [of "k - 52" 53] by metis
qed

lemma fl64_binade:
  assumes "2 powi k \<le> x" "x < 2 powi (k + 1)"
  shows "2 powi k \<le> fl64 x \<and> fl64 x \<le> 2 powi (k + 1)"
proof -
  let ?u = "(2::real) powi (k - 52)"
  have u: "0 < ?u" by simp
  have "2 ^ 52 * ?u \<le> x" using assms(1) pow2_split [of k] by simp
  then have lo: "of_int (2 ^ 52) \<le> x / ?u" using u by (simp add: pos_le_divide_eq)
  have "x \<le> 2 ^ 53 * ?u" using assms(2) pow2_split1 [of k] by simp
  then have hi: "x / ?u \<le> of_int (2 ^ 53)" using u by (simp add: pos_divide_le_eq)
  from rne_bounds [OF lo hi] have "(2::real) ^ 52 \<le> of_int (rne (x / ?u))" "of_int (rne (x / ?u)) \<le> (2::real) ^ 53"
    by (metis of_int_le_iff of_int_numeral of_int_power)+
  then have "2 ^ 52 * ?u \<le> of_int (rne (x / ?u)) * ?u" "of_int (rne (x / ?u)) * ?u \<le> 2 ^ 53 * ?u"
    using u by simp_all
  then show ?thesis
    unfolding fl64_pos_eval [OF assms] using pow2_split [of k] pow2_split1 [of k] by simp
qed

lemma fl64_pos: "0 < x \<Longrightarrow> 0 < fl64 x"
  using fl64_binade [of "\<lfloor>log 2 x\<rfloor>" x] log2_binade [of x]
    zero_less_power_int [of "2::real" "\<lfloor>log 2 x\<rfloor>"] by linarith

lemma fl64_nonneg: "0 \<le> x \<Longrightarrow> 0 \<le> fl64 x"
  using fl64_pos [of x] fl64_0 by (cases "x = 0") auto

lemma fl64_mono_pos:
  assumes "0 < x" "x \<le> y"
  shows "fl64 x \<le> fl64 y"
proof -
  let ?k = "\<lfloor>log 2 x\<rfloor>" and ?l = "\<lfloor>log 2 y\<rfloor>"
  have y: "0 < y" using assms by simp
  have bx: "2 powi ?k \<le> x" "x < 2 powi (?k + 1)" using log2_binade [OF assms(1)] by simp_all
  have bj: "2 powi ?l \<le> y" "y < 2 powi (?l + 1)" using log2_binade [OF y] by simp_all
  have kl: "?k \<le> ?l" using assms by (intro floor_mono) simp
  show ?thesis
  proof (cases "?k = ?l")
    case True
    have "x / 2 powi (?k - 52) \<le> y / 2 powi (?k - 52)"
      using assms(2) by (simp add: divide_right_mono)
    then have "rne (x / 2 powi (?k - 52)) \<le> rne (y / 2 powi (?k - 52))" by (rule rne_mono)
    then have "of_int (rne (x / 2 powi (?k - 52))) * 2 powi (?k - 52)
        \<le> of_int (rne (y / 2 powi (?k - 52))) * (2::real) powi (?k - 52)"
      by simp
    then show ?thesis using fl64_pos_eval [OF bx] fl64_pos_eval [OF bj] True by simp
  next
    case False
    then have "?k + 1 \<le> ?l" using kl by simp
    then have "(2::real) powi (?k + 1) \<le> 2 powi ?l" by (intro power_int_increasing) simp_all
    then show ?thesis using fl64_binade [OF bx] fl64_binade [OF bj] by linarith
  qed
qed

lemma fl64_mono:
  assumes "x \<le> y"
  shows "fl64 x \<le> fl64 y"
proof -
  consider "0 < x" | "x \<le> 0" "0 \<le> y" | "y < 0" using assms by linarith
  then show ?thesis
  proof cases
    case 1
    then show ?thesis using assms by (rule fl64_mono_pos)
  next
    case 2
    have "fl64 x \<le> 0" using fl64_nonneg [of "- x"] 2(1) by (simp add: fl64_minus)
    moreover have "0 \<le> fl64 y" using 2(2) by (rule fl64_nonneg)
    ultimately show ?thesis by simp
  next
    case 3
    have "fl64 (- y) \<le> fl64 (- x)" using 3 assms by (intro fl64_mono_pos) simp_all
    then show ?thesis by (simp add: fl64_minus)
  qed
qed

lemma fl64_repr:
  assumes "2 ^ 52 \<le> n" "n \<le> 2 ^ 53"
  shows "fl64 (of_int n * 2 powi e) = of_int n * 2 powi e"
proof (cases "n = 2 ^ 53")
  case True
  have eq: "of_int n * (2::real) powi e = 2 powi (e + 53)"
    using power_int_add [of "2::real" 53 e] True by (simp add: add.commute)
  have a: "(2::real) powi (e + 53) \<le> 2 powi (e + 53)" by simp
  have b: "(2::real) powi (e + 53) < 2 powi (e + 53 + 1)"
    by (intro power_int_strict_increasing) simp_all
  have c: "(2::real) powi (e + 53) / 2 powi (e + 53 - 52) = of_int (2 ^ 52)"
    using power_int_add [of "2::real" 52 "e + 1"] by (simp add: add.commute add.left_commute)
  have d: "of_int (2 ^ 52) * (2::real) powi (e + 53 - 52) = 2 powi (e + 53)"
    using power_int_add [of "2::real" 52 "e + 1"] by (simp add: add.commute add.left_commute)
  show ?thesis unfolding eq fl64_pos_eval [OF a b] c rne_of_int d ..
next
  case False
  then have lt: "n < 2 ^ 53" using assms(2) by simp
  let ?u = "(2::real) powi e"
  have u: "0 < ?u" by simp
  have n1: "(2::real) ^ 52 \<le> of_int n" using assms(1) by (metis of_int_le_iff of_int_numeral of_int_power)
  have n2: "of_int n < (2::real) ^ 53" using lt by (metis of_int_less_iff of_int_numeral of_int_power)
  have p1: "(2::real) powi (e + 52) = 2 ^ 52 * ?u"
    using power_int_add [of "2::real" 52 e] by (simp add: add.commute)
  have p2: "(2::real) powi (e + 52 + 1) = 2 ^ 53 * ?u"
    using power_int_add [of "2::real" 53 e] by (simp add: add.commute)
  have a: "2 powi (e + 52) \<le> of_int n * ?u" unfolding p1 using n1 u by simp
  have b: "of_int n * ?u < 2 powi (e + 52 + 1)" unfolding p2 using n2 u by simp
  show ?thesis unfolding fl64_pos_eval [OF a b] by (simp add: rne_of_int)
qed

lemma fl64_idem: "fl64 (fl64 x) = fl64 x"
proof -
  have pos: "fl64 (fl64 x) = fl64 x" if "0 < x" for x
  proof -
    let ?k = "\<lfloor>log 2 x\<rfloor>"
    let ?u = "(2::real) powi (?k - 52)"
    have u: "0 < ?u" by simp
    have bx: "2 powi ?k \<le> x" "x < 2 powi (?k + 1)" using log2_binade [OF that] by simp_all
    have "2 ^ 52 * ?u \<le> x" using bx(1) pow2_split [of ?k] by simp
    then have lo: "of_int (2 ^ 52) \<le> x / ?u" using u by (simp add: pos_le_divide_eq)
    have "x \<le> 2 ^ 53 * ?u" using bx(2) pow2_split1 [of ?k] by simp
    then have hi: "x / ?u \<le> of_int (2 ^ 53)" using u by (simp add: pos_divide_le_eq)
    from rne_bounds [OF lo hi] show ?thesis
      unfolding fl64_pos_eval [OF bx] by (intro fl64_repr) simp_all
  qed
  consider "0 < x" | "x = 0" | "x < 0" by linarith
  then show ?thesis
  proof cases
    case 1 then show ?thesis by (rule pos)
  next
    case 2 then show ?thesis by (simp add: fl64_0)
  next
    case 3
    then have "fl64 (fl64 (- x)) = fl64 (- x)" by (intro pos) simp
    then show ?thesis by (simp add: fl64_minus)
  qed
qed

lemma fl64_dyadic_pos:
  "0 < m \<Longrightarrow> m \<le> 2 ^ 53 \<Longrightarrow> fl64 (of_int m * 2 powi e) = of_int m * 2 powi e"
proof (induction "nat (2 ^ 53 - m)" arbitrary: m e rule: less_induct)
  case less
  show ?case
  proof (cases "2 ^ 52 \<le> m")
    case True
    then show ?thesis using less.prems(2) by (rule fl64_repr)
  next
    case False
    then have "nat (2 ^ 53 - 2 * m) < nat (2 ^ 53 - m)" "0 < 2 * m" "2 * m \<le> 2 ^ 53"
      using less.prems by simp_all
    then have "fl64 (of_int (2 * m) * 2 powi (e - 1)) = of_int (2 * m) * 2 powi (e - 1)"
      by (rule less.hyps)
    moreover have "of_int (2 * m) * (2::real) powi (e - 1) = of_int m * 2 powi e"
    proof -
      have "(2::real) powi e = 2 * 2 powi (e - 1)"
        using power_int_add [of "2::real" 1 "e - 1"] by simp
      then show ?thesis by simp
    qed
    ultimately show ?thesis by (simp only:)
  qed
qed

lemma fl64_of_int:
  assumes "\<bar>m\<bar> \<le> 2 ^ 53"
  shows "fl64 (of_int m) = of_int m"
proof -
  consider "0 < m" | "m = 0" | "m < 0" by linarith
  then show ?thesis
  proof cases
    case 1
    then show ?thesis using fl64_dyadic_pos [of m 0] assms by simp
  next
    case 2
    then show ?thesis by (simp add: fl64_0)
  next
    case 3
    then have "fl64 (of_int (- m) * 2 powi 0) = of_int (- m) * 2 powi 0"
      using assms by (intro fl64_dyadic_pos) simp_all
    then show ?thesis by (simp add: fl64_minus)
  qed
qed

lemma fl64_numeral: "(numeral n :: int) \<le> 2 ^ 53 \<Longrightarrow> fl64 (numeral n) = numeral n"
  using fl64_of_int [of "numeral n"] by simp

lemma fl64_1: "fl64 1 = 1"
  using fl64_of_int [of 1] by simp

lemma rne_down: "of_int n \<le> q \<Longrightarrow> q < of_int n + 1 / 2 \<Longrightarrow> rne q = n"
proof -
  assume a: "of_int n \<le> q" "q < of_int n + 1 / 2"
  then have "\<lfloor>q\<rfloor> = n" by (intro floor_unique) simp_all
  with a show ?thesis by (simp add: rne_def)
qed

text \<open>
  \<open>fl64\<close> is evaluated at a number by naming the power of two below it; integers up to
  \<open>2^53\<close> are doubles.
\<close>

lemma fl64_neg_numeral: "(numeral n :: int) \<le> 2 ^ 53 \<Longrightarrow> fl64 (- numeral n) = - numeral n"
  by (simp add: fl64_minus fl64_numeral)

lemmas fl64_ints = fl64_0 fl64_1 fl64_numeral fl64_neg_numeral

subsection \<open>The double nearest to \<open>\<pi>\<close>\<close>

text \<open>
  Bounds on \<open>\<pi>\<close> from Machin's formula and the alternating series of the arctangent,
  tight enough to round it: \<open>Math.PI\<close> is \<open>884279719003555 / 2^48\<close>.
\<close>

lemma arctan_enclosure:
  assumes "0 < x" "x \<le> 1"
  shows "(\<Sum>k<2*n. (- 1) ^ k * (1 / real (k * 2 + 1) * x ^ (k * 2 + 1))) \<le> arctan x"
    and "arctan x \<le> (\<Sum>k<2*n+1. (- 1) ^ k * (1 / real (k * 2 + 1) * x ^ (k * 2 + 1)))"
proof -
  have ax: "\<bar>x\<bar> \<le> 1" using assms by simp
  have "0 < 1 / real (0 * 2 + 1) * x ^ (0 * 2 + 1)" using assms by simp
  with summable_Leibniz(2) [OF zeroseq_arctan_series [OF ax] monoseq_arctan_series [OF ax]]
  have "arctan x \<in> {(\<Sum>k<2*n. (- 1) ^ k * (1 / real (k * 2 + 1) * x ^ (k * 2 + 1))) ..
      (\<Sum>k<2*n+1. (- 1) ^ k * (1 / real (k * 2 + 1) * x ^ (k * 2 + 1)))}"
    unfolding arctan_series [OF ax] by blast
  then show "(\<Sum>k<2*n. (- 1) ^ k * (1 / real (k * 2 + 1) * x ^ (k * 2 + 1))) \<le> arctan x"
    and "arctan x \<le> (\<Sum>k<2*n+1. (- 1) ^ k * (1 / real (k * 2 + 1) * x ^ (k * 2 + 1)))"
    by simp_all
qed

lemma pi_lower: "7074237752028440 / 2 ^ 51 \<le> pi"
proof -
  have a: "(\<Sum>k<2*7. (- 1) ^ k * (1 / real (k * 2 + 1) * (1/5) ^ (k * 2 + 1))) \<le> arctan (1/5)"
    by (rule arctan_enclosure) simp_all
  have b: "arctan (1/239) \<le> (\<Sum>k<2*2+1. (- 1) ^ k * (1 / real (k * 2 + 1) * (1/239) ^ (k * 2 + 1)))"
    by (rule arctan_enclosure) simp_all
  have c: "7074237752028440 / 2 ^ 51 \<le> 16 * (\<Sum>k<2*7. (- 1) ^ k * (1 / real (k * 2 + 1) * (1/5) ^ (k * 2 + 1)))
      - 4 * (\<Sum>k<2*2+1. (- 1) ^ k * (1 / real (k * 2 + 1) * (1/239) ^ (k * 2 + 1)))"
    by (simp add: lessThan_nat_numeral lessThan_Suc power_divide)
  show ?thesis using a b c machin by linarith
qed

lemma pi_upper: "pi < (2 * 7074237752028440 + 1) / 2 ^ 52"
proof -
  have a: "arctan (1/5) \<le> (\<Sum>k<2*7+1. (- 1) ^ k * (1 / real (k * 2 + 1) * (1/5) ^ (k * 2 + 1)))"
    by (rule arctan_enclosure) simp_all
  have b: "(\<Sum>k<2*2. (- 1) ^ k * (1 / real (k * 2 + 1) * (1/239) ^ (k * 2 + 1))) \<le> arctan (1/239)"
    by (rule arctan_enclosure) simp_all
  have c: "16 * (\<Sum>k<2*7+1. (- 1) ^ k * (1 / real (k * 2 + 1) * (1/5) ^ (k * 2 + 1)))
      - 4 * (\<Sum>k<2*2. (- 1) ^ k * (1 / real (k * 2 + 1) * (1/239) ^ (k * 2 + 1)))
      < (2 * 7074237752028440 + 1) / 2 ^ 52"
    by (simp add: lessThan_nat_numeral lessThan_Suc power_divide)
  show ?thesis using a b c machin by linarith
qed


lemma fl64_pi: "fl64 pi = 884279719003555 / 281474976710656"
proof -
  have a: "2 powi 1 \<le> pi" "pi < 2 powi (1 + 1)"
    using pi_ge_two pi_less_4 by simp_all
  have q: "pi / 2 powi (1 - 52) = pi * 2 ^ 51" by (simp add: power_int_minus field_simps)
  have "rne (pi * 2 ^ 51) = 7074237752028440"
    using pi_lower pi_upper by (intro rne_down) (simp_all add: field_simps)
  then show ?thesis unfolding fl64_pos_eval [OF a] q by (simp add: power_int_minus)
qed

lemma fl64_half_pi: "fl64 (pi / 2) = 884279719003555 / 562949953421312"
proof -
  have a: "2 powi 0 \<le> pi / 2" "pi / 2 < 2 powi (0 + 1)"
    using pi_ge_two pi_less_4 by simp_all
  have q: "pi / 2 / 2 powi (0 - 52) = pi * 2 ^ 51" by (simp add: power_int_minus field_simps)
  have "rne (pi * 2 ^ 51) = 7074237752028440"
    using pi_lower pi_upper by (intro rne_down) (simp_all add: field_simps)
  then show ?thesis unfolding fl64_pos_eval [OF a] q by (simp add: power_int_minus)
qed

subsection \<open>Doubles that the examples meet\<close>

text \<open>
  Each argument is written as the fraction in lowest terms that it evaluates to.
\<close>

text \<open>
  The literals \<open>0.35\<close> and \<open>0.1\<close>.
\<close>

lemma fl64_035: "fl64 (7 / 20) = 3152519739159347 / 9007199254740992"
  by (subst fl64_pos_eval [of "- 2"]) (simp_all add: rne_def)

lemma fl64_01: "fl64 (1 / 10) = 3602879701896397 / 36028797018963968"
  by (subst fl64_pos_eval [of "- 4"]) (simp_all add: rne_def)

text \<open>
  The first hat on a canvas of 2048 by 2048: \<open>2048 * 0.35\<close> (a multiplication by a power of
  two, exact), that width divided by 100, and \<open>2048 / 3\<close>; the last is a double.
\<close>

lemma fl64_target_width: "fl64 (3152519739159347 / 4398046511104) = 3152519739159347 / 4398046511104"
  by (subst fl64_pos_eval [of 9]) (simp_all add: rne_def)

lemma fl64_first_scale: "fl64 (3152519739159347 / 439804651110400) = 1008806316530991 / 140737488355328"
  by (subst fl64_pos_eval [of 2]) (simp_all add: rne_def)

lemma fl64_third: "fl64 (2048 / 3) = 6004799503160661 / 8796093022208"
  by (subst fl64_pos_eval [of 9]) (simp_all add: rne_def)

lemma fl64_third_idem: "fl64 (6004799503160661 / 8796093022208) = 6004799503160661 / 8796093022208"
  by (subst fl64_pos_eval [of 9]) (simp_all add: rne_def)

text \<open>
  A width that does not divide 2048: \<open>2048 / 49\<close>, and 49 times that double.
\<close>

lemma fl64_2048_by_49: "fl64 (2048 / 49) = 5882252574524729 / 140737488355328"
  by (subst fl64_pos_eval [of 5]) (simp_all add: rne_def)

lemma fl64_49_times: "fl64 (288230376151711721 / 140737488355328) = 9007199254740991 / 4398046511104"
  by (subst fl64_pos_eval [of 10]) (simp_all add: rne_def)

text \<open>
  \<open>3 / 50\<close>, a quotient of distances; it is a double once rounded.
\<close>

lemma fl64_3_by_50: "fl64 (3 / 50) = 1080863910568919 / 18014398509481984"
  by (subst fl64_pos_eval [of "- 5"]) (simp_all add: rne_def)

lemma fl64_3_by_50_idem: "fl64 (1080863910568919 / 18014398509481984) = 1080863910568919 / 18014398509481984"
  by (subst fl64_pos_eval [of "- 5"]) (simp_all add: rne_def)

text \<open>
  \<open>180 / Math.PI\<close>, and the product of \<open>Math.PI / 2\<close> with it: a quarter turn is 90 degrees
  exactly.
\<close>

lemma fl64_degrees_per_radian: "fl64 (10133099161583616 / 176855943800711) = 1007958012753983 / 17592186044416"
  by (subst fl64_pos_eval [of 5]) (simp_all add: rne_def)

lemma fl64_quarter_turn: "fl64 (891316828285473794106117409565 / 9903520314283042199192993792) = 90"
  by (subst fl64_pos_eval [of 6]) (simp_all add: rne_def)

text \<open>
  \<open>90 - 0.1\<close> and that double subtracted from 90.
\<close>

lemma fl64_tilted_turn: "fl64 (3238988852004860723 / 36028797018963968) = 3163075050785997 / 35184372088832"
  by (subst fl64_pos_eval [of 6]) (simp_all add: rne_def)

lemma fl64_tilted_back: "fl64 (3518437208883 / 35184372088832) = 3518437208883 / 35184372088832"
  by (subst fl64_pos_eval [of "- 4"]) (simp_all add: rne_def)

text \<open>
  \<open>2048 / 3 - 540\<close> in doubles, which is exact.
\<close>

lemma fl64_drag_dy: "fl64 (1254909271168341 / 8796093022208) = 1254909271168341 / 8796093022208"
  by (subst fl64_pos_eval [of 7]) (simp_all add: rne_def)

lemmas fl64_values =
  fl64_0 fl64_1 fl64_numeral fl64_neg_numeral fl64_minus
  fl64_035 fl64_01 fl64_target_width fl64_first_scale fl64_third fl64_third_idem
  fl64_2048_by_49 fl64_49_times fl64_3_by_50 fl64_3_by_50_idem fl64_degrees_per_radian
  fl64_quarter_turn fl64_tilted_turn fl64_tilted_back fl64_drag_dy

subsection \<open>Truthiness and identifiers\<close>

lemma truthy_Some [simp]: "truthy (Some u) = (u \<noteq> [])"
  and truthy_None [simp]: "truthy None = False"
  by (simp_all add: truthy_def)

lemma toString_nat_nonempty: "toString_nat n \<noteq> []"
  by (subst toString_nat.simps) simp

lemma toString_1700: "toString_nat 1700 = ''1700''"
  by code_simp

subsection \<open>What the handlers leave unchanged\<close>

lemma placeHat_frame:
  assumes "placeHat s hatToAdd img now rnd r1 r2 = Inr s'"
  shows "bg_image s' = bg_image s \<and> mode s' = mode s \<and> loadedImages s' = loadedImages s
         \<and> startInteraction s' = startInteraction s
         \<and> selectedHatId s' = Some (toString_nat now @ drop 2 rnd)
         \<and> (\<exists>h. hats s' = hats s @ [h] \<and> uid h = toString_nat now @ drop 2 rnd)"
  using assms
  by (auto simp: placeHat_def Let_def newPlacedHat_def split: option.splits sum.splits prod.splits)

lemma addHat_frame:
  assumes "addHat s hatToAdd decoded now rnd r1 r2 = Inr s'"
  shows "bg_image s' = bg_image s \<and> mode s' = mode s"
  using assms
  by (auto simp: addHat_def hatImageOnload_def split: load_start.splits option.splits dest!: placeHat_frame)

lemma moveHat_uid: "moveHat s x y h = Inr h' \<Longrightarrow> uid h' = uid h"
  by (auto simp: moveHat_def Let_def split: if_splits Mode.splits sum.splits)

lemma mapE_moveHat_uids:
  "mapE (moveHat s x y) xs = Inr ys \<Longrightarrow> map uid ys = map uid xs"
  by (induction xs arbitrary: ys) (auto split: sum.splits dest: moveHat_uid)

lemma handleMouseMove_frame:
  assumes "handleMouseMove s x y = Inr s'"
  shows "bg_image s' = bg_image s \<and> mode s' = mode s \<and> selectedHatId s' = selectedHatId s
         \<and> map uid (hats s') = map uid (hats s)"
  using assms
  by (auto simp: handleMouseMove_def split: if_splits sum.splits dest: mapE_moveHat_uids)

lemma deleteSelectedHat_frame:
  "bg_image (deleteSelectedHat s) = bg_image s \<and> loadedImages (deleteSelectedHat s) = loadedImages s"
  by (simp add: deleteSelectedHat_def)

lemma checkControls_frame:
  "checkControls s x y r = Some s' \<Longrightarrow> bg_image s' = bg_image s \<and> loadedImages s' = loadedImages s"
  by (auto simp: checkControls_def deleteSelectedHat_frame split: if_splits option.splits)

lemma handleMouseDown_frame:
  "bg_image (handleMouseDown s x y ui) = bg_image s \<and> loadedImages (handleMouseDown s x y ui) = loadedImages s"
  by (auto simp: handleMouseDown_def Let_def split: option.splits dest: checkControls_frame)

lemma handleMouseDown_no_bg: "bg_image s = None \<Longrightarrow> handleMouseDown s x y ui = s"
  by (simp add: handleMouseDown_def)

lemma handleMouseUp_idle: "mode s = NONE \<Longrightarrow> handleMouseUp s = s"
  by (cases s) (simp add: handleMouseUp_def)

subsection \<open>Invariants of the reachable states\<close>

text \<open>
  No handler sets the background back to none, and only a pointer-down with a background
  leaves mode \<open>NONE\<close>: while there is no background the mode is \<open>NONE\<close>.
\<close>

lemma no_background_idle: "reachable s \<Longrightarrow> bg_image s = None \<Longrightarrow> mode s = NONE"
proof (induction rule: reachable.induct)
  case r_init
  show ?case by (simp add: initialState_def)
next
  case (r_load s file_type decoded)
  then show ?case by (auto simp: processFile_def split: if_splits option.splits)
next
  case (r_add s hatToAdd decoded now rnd r1 r2 s')
  then show ?case using addHat_frame by metis
next
  case (r_down s x y uiScale)
  then show ?case by (simp add: handleMouseDown_frame handleMouseDown_no_bg)
next
  case (r_move s x y s')
  then show ?case using handleMouseMove_frame by metis
next
  case (r_up s)
  show ?case by (simp add: handleMouseUp_def)
next
  case (r_delete s)
  then show ?case by (auto simp: deleteSelectedHat_def split: if_splits)
qed

lemma canvas_run_no_bg:
  "mode s = NONE \<Longrightarrow> bg_image s = None \<Longrightarrow> canvas_run s es = Inr s"
proof (induction es)
  case Nil
  show ?case by simp
next
  case (Cons e es)
  then show ?case
    by (cases e) (simp_all add: handleMouseDown_no_bg handleMouseMove_def handleMouseUp_idle)
qed

lemma sceneNoBackground_reachable: "reachable sceneNoBackground"
proof -
  have "addHat initialState hat1 (Some raster_100x40) 1700 ''0.1234'' 0 0 = Inr sceneNoBackground"
    by (simp add: addHat_def loadHatImage_def initialState_def hatImageOnload_def placeHat_def
        sceneNoBackground_def hat1_def toString_1700 Let_def)
  then show ?thesis using r_add [OF r_init] by blast
qed

lemma hitLoop_mem:
  "hitLoop loaded hs x y n = Some hat \<Longrightarrow> n \<le> length hs \<Longrightarrow> hat \<in> set hs"
  by (induction n) (auto simp: Let_def split: option.splits if_splits)

lemma addHat_scene:
  assumes "addHat s hatToAdd decoded now rnd r1 r2 = Inr s'"
  shows "s' = s \<or> (\<exists>h. hats s' = hats s @ [h] \<and> uid h = toString_nat now @ drop 2 rnd
                      \<and> selectedHatId s' = Some (toString_nat now @ drop 2 rnd))"
  using assms
  by (auto simp: addHat_def hatImageOnload_def split: load_start.splits option.splits
      dest!: placeHat_frame)

lemma checkControls_scene:
  assumes "checkControls s x y r = Some s'"
  shows "s' = deleteSelectedHat s
         \<or> (uids s' = uids s \<and> selectedHatId s' = selectedHatId s)"
  using assms
  by (auto simp: checkControls_def uids_def o_def split: if_splits option.splits)

lemma selectionInv_delete: "selectionInv s \<Longrightarrow> selectionInv (deleteSelectedHat s)"
  by (auto simp: selectionInv_def uids_def deleteSelectedHat_def)

lemma selectionInv_cong:
  "selectionInv s \<Longrightarrow> uids s' = uids s \<Longrightarrow> selectedHatId s' = selectedHatId s \<Longrightarrow> selectionInv s'"
  by (auto simp: selectionInv_def split: option.splits)

lemma selectionInv_down: "selectionInv s \<Longrightarrow> selectionInv (handleMouseDown s x y ui)"
proof (cases "bg_image s")
  case None
  assume "selectionInv s"
  with None show ?thesis by (simp add: handleMouseDown_no_bg)
next
  case (Some bg)
  assume inv: "selectionInv s"
  show ?thesis
  proof (cases "checkControls s x y (BASE_HANDLE_RADIUS * ui * 1.5)")
    case (Some s')
    with checkControls_scene [OF Some] inv selectionInv_delete [OF inv] \<open>bg_image s = Some bg\<close>
    show ?thesis
      by (auto simp: handleMouseDown_def Let_def intro: selectionInv_cong)
  next
    case None
    show ?thesis
    proof (cases "hitLoop (loadedImages s) (hats s) x y (length (hats s))")
      case None
      with \<open>checkControls s x y (BASE_HANDLE_RADIUS * ui * 1.5) = None\<close> \<open>bg_image s = Some bg\<close> inv
      show ?thesis by (simp add: handleMouseDown_def Let_def selectionInv_def uids_def)
    next
      case (Some hat)
      then have "hat \<in> set (hats s)" by (rule hitLoop_mem) simp
      with Some \<open>checkControls s x y (BASE_HANDLE_RADIUS * ui * 1.5) = None\<close> \<open>bg_image s = Some bg\<close> inv
      show ?thesis by (auto simp: handleMouseDown_def Let_def selectionInv_def uids_def)
    qed
  qed
qed

lemma reachable_selectionInv: "reachable s \<Longrightarrow> selectionInv s"
proof (induction rule: reachable.induct)
  case r_init
  show ?case by (simp add: initialState_def selectionInv_def uids_def)
next
  case (r_load s file_type decoded)
  then show ?case by (auto simp: processFile_def selectionInv_def uids_def split: option.splits)
next
  case (r_add s hatToAdd decoded now rnd r1 r2 s')
  from addHat_scene [OF r_add.hyps(2)] r_add.IH show ?case
    by (auto simp: selectionInv_def uids_def toString_nat_nonempty split: option.splits)
next
  case (r_down s x y uiScale)
  then show ?case by (simp add: selectionInv_down)
next
  case (r_move s x y s')
  from handleMouseMove_frame [OF r_move.hyps(2)] r_move.IH show ?case
    by (auto simp: uids_def intro: selectionInv_cong)
next
  case (r_up s)
  then show ?case by (auto simp: handleMouseUp_def uids_def intro: selectionInv_cong)
next
  case (r_delete s)
  then show ?case by (simp add: selectionInv_delete)
qed

subsection \<open>The selected hat of the example scene\<close>

lemma find_selected_two: "find (\<lambda>h. Some (uid h) = selectedHatId sceneTwoHats) (hats sceneTwoHats) = Some placedB"
  by (simp add: sceneTwoHats_def placedA_def placedB_def newPlacedHat_def)

lemma corners_placedB:
  "getTransformedCorners (loadedImages sceneTwoHats) placedB =
     Some \<lparr>tl_corner = (1450, 1480), tr_corner = (1550, 1480), br_corner = (1550, 1520),
           bl_corner = (1450, 1520), box_width = 100, box_height = 40\<rparr>"
  by (simp add: getTransformedCorners_def sceneTwoHats_def placedB_def newPlacedHat_def hat1_def
      raster_100x40_def rotatePoint_def Let_def)

subsection \<open>Runs of the asset cache\<close>

lemma asset_run_cached:
  "loadedImages s path \<noteq> None \<Longrightarrow>
   count_list (snd (asset_run s decodes es)) path = count_list decodes path"
proof (induction es arbitrary: s decodes)
  case Nil
  show ?case by simp
next
  case (Cons e es)
  show ?case
  proof (cases e)
    case (Request p)
    show ?thesis
    proof (cases "loadedImages s p")
      case None
      with Cons.prems have "p \<noteq> path" by auto
      with None Request Cons.IH [OF Cons.prems, of "decodes @ [p]"] show ?thesis
        by (simp add: loadHatImage_def)
    next
      case (Some a)
      with Request Cons.IH [OF Cons.prems, of decodes] show ?thesis
        by (simp add: loadHatImage_def)
    qed
  next
    case (Onload p img)
    from Cons.prems have "loadedImages (hatImageOnload s p img) path \<noteq> None"
      by (simp add: hatImageOnload_def)
    from Cons.IH [OF this, of decodes] Onload show ?thesis by simp
  next
    case (Onerror p)
    with Cons.IH [OF Cons.prems, of decodes] show ?thesis by simp
  qed
qed

subsection \<open>Render dimensions\<close>

lemma getRenderDimensions_wide:
  "MIN_CANVAS_WIDTH \<le> width img \<Longrightarrow> getRenderDimensions img = Inr (real (width img), real (height img))"
  by (simp add: getRenderDimensions_def)

lemma getRenderDimensions_narrow:
  "0 < width img \<Longrightarrow> width img < MIN_CANVAS_WIDTH \<Longrightarrow>
   getRenderDimensions img = Inr (2048, fl64 (real (height img) * fl64 (2048 / real (width img))))"
  by (simp add: getRenderDimensions_def js_div_def MIN_CANVAS_WIDTH_def)

text \<open>
  An image of width 0 makes \<open>2048 / img.width\<close> Infinity: the height is then not a real.
\<close>

lemma getRenderDimensions_zero_width:
  "width img = 0 \<Longrightarrow>
   getRenderDimensions img = Inl (if 0 < height img then PosInfinity else NaN)"
  by (simp add: getRenderDimensions_def js_div_def MIN_CANVAS_WIDTH_def)

lemma getRenderDimensions_512: "getRenderDimensions \<lparr>width = 512, height = 512\<rparr> = Inr (2048, 2048)"
  by (simp add: getRenderDimensions_def js_div_def MIN_CANVAS_WIDTH_def fl64_ints)

lemma getRenderDimensions_49:
  "getRenderDimensions \<lparr>width = 49, height = 49\<rparr> = Inr (2048, 9007199254740991 / 4398046511104)"
  by (simp add: getRenderDimensions_def js_div_def MIN_CANVAS_WIDTH_def fl64_values)

lemma placeHat_on_fresh_background:
  assumes "bg_image s = Some \<lparr>width = 512, height = 512\<rparr>" and "hats s = []"
    and "width hatImg = 100"
  shows "placeHat s hatToAdd hatImg now rnd r1 r2 =
     Inr (s\<lparr>hats := [newPlacedHat hatToAdd (toString_nat now @ drop 2 rnd) 1024
                        (6004799503160661 / 8796093022208) (1008806316530991 / 140737488355328)],
            selectedHatId := Some (toString_nat now @ drop 2 rnd)\<rparr>)"
  using assms
  by (simp add: placeHat_def getRenderDimensions_512 js_div_def Let_def fl64_values)

subsection \<open>Distances and circles\<close>

lemma centerDist_nonneg: "0 \<le> centerDist hat x y"
  by (simp add: centerDist_def fl64_nonneg)

lemma centerDist_centre: "centerDist hat (hx hat) (hy hat) = 0"
  by (simp add: centerDist_def fl64_0)

lemma isPointInCircle_iff:
  "0 \<le> r \<Longrightarrow> isPointInCircle px py cx cy r \<longleftrightarrow> (px - cx)\<^sup>2 + (py - cy)\<^sup>2 \<le> r\<^sup>2"
  unfolding isPointInCircle_def
  by (metis real_sqrt_le_iff real_sqrt_abs abs_of_nonneg)

lemma isPointInCircle_neg: "r < 0 \<Longrightarrow> \<not> isPointInCircle px py cx cy r"
  unfolding isPointInCircle_def
  by (smt (verit) real_sqrt_ge_zero sum_power2_ge_zero)

subsection \<open>Moves in mode SCALE\<close>

lemma mapE_map: "(\<And>a. a \<in> set xs \<Longrightarrow> f a = Inr (g a)) \<Longrightarrow> mapE f xs = Inr (map g xs)"
  by (induction xs) simp_all

lemma moveHat_other: "Some (uid h) \<noteq> selectedHatId s \<Longrightarrow> moveHat s x y h = Inr h"
  by (simp add: moveHat_def)

lemma moveHat_SCALE:
  assumes "mode s = SCALE" and "Some (uid h) = selectedHatId s"
    and "centerDist h (mouseX (startInteraction s)) (mouseY (startInteraction s)) \<noteq> 0"
  shows "moveHat s x y h = Inr (h\<lparr>scale := scaleAt s h x y\<rparr>)"
  using assms
  by (simp add: moveHat_def scaleAt_def centerDist_def js_div_def Math_sqrt_def Math_pow2_def
      Let_def)

lemma scaleAt_floor: "fl64 0.1 \<le> scaleAt s h x y"
  by (simp add: scaleAt_def)

lemma scaleAt_centre: "scaleAt s h (hx h) (hy h) = fl64 0.1"
proof -
  have "0 \<le> fl64 0.1" by (rule fl64_nonneg) simp
  then show ?thesis by (simp add: scaleAt_def centerDist_centre fl64_0)
qed

lemma scaleAt_mono:
  assumes "0 \<le> startScale (startInteraction s)" and "centerDist h x y \<le> centerDist h x' y'"
  shows "scaleAt s h x y \<le> scaleAt s h x' y'"
proof -
  have "0 \<le> centerDist h (mouseX (startInteraction s)) (mouseY (startInteraction s))"
    by (rule centerDist_nonneg)
  with assms(2) have "centerDist h x y / centerDist h (mouseX (startInteraction s)) (mouseY (startInteraction s))
      \<le> centerDist h x' y' / centerDist h (mouseX (startInteraction s)) (mouseY (startInteraction s))"
    by (rule divide_right_mono)
  then have "fl64 (centerDist h x y / centerDist h (mouseX (startInteraction s)) (mouseY (startInteraction s)))
      \<le> fl64 (centerDist h x' y' / centerDist h (mouseX (startInteraction s)) (mouseY (startInteraction s)))"
    by (rule fl64_mono)
  with assms(1) have "startScale (startInteraction s)
        * fl64 (centerDist h x y / centerDist h (mouseX (startInteraction s)) (mouseY (startInteraction s)))
      \<le> startScale (startInteraction s)
        * fl64 (centerDist h x' y' / centerDist h (mouseX (startInteraction s)) (mouseY (startInteraction s)))"
    by (rule mult_left_mono [rotated])
  then have "fl64 (startScale (startInteraction s)
        * fl64 (centerDist h x y / centerDist h (mouseX (startInteraction s)) (mouseY (startInteraction s))))
      \<le> fl64 (startScale (startInteraction s)
        * fl64 (centerDist h x' y' / centerDist h (mouseX (startInteraction s)) (mouseY (startInteraction s))))"
    by (rule fl64_mono)
  then show ?thesis unfolding scaleAt_def by (rule max.mono [OF order_refl])
qed

subsection \<open>The controls of a selected hat, and the example scene\<close>

lemma checkControls_selected:
  assumes "truthy (selectedHatId s)"
    and "find (\<lambda>h. Some (uid h) = selectedHatId s) (hats s) = Some hat"
    and "getTransformedCorners (loadedImages s) hat = Some c"
  shows "checkControls s x y r =
     (if isPointInCircle x y (fst (tl_corner c)) (snd (tl_corner c)) r
      then Some (deleteSelectedHat s)
      else if isPointInCircle x y (fst (tr_corner c)) (snd (tr_corner c)) r
      then Some (s\<lparr>mode := ROTATE, startInteraction := captureStart x y hat\<rparr>)
      else if isPointInCircle x y (fst (br_corner c)) (snd (br_corner c)) r
      then Some (s\<lparr>mode := SCALE, startInteraction := captureStart x y hat\<rparr>)
      else if isPointInCircle x y (fst (bl_corner c)) (snd (bl_corner c)) r
      then Some (s\<lparr>hats := map (\<lambda>h. if Some (uid h) = selectedHatId s
                                      then h\<lparr>isMirrored := \<not> isMirrored h\<rparr> else h) (hats s)\<rparr>)
      else None)"
  using assms by (simp add: checkControls_def)

lemma truthy_two: "truthy (selectedHatId sceneTwoHats)"
  by (simp add: sceneTwoHats_def)

lemma bg_two: "bg_image sceneTwoHats = Some \<lparr>width = 2048, height = 2048\<rparr>"
  by (simp add: sceneTwoHats_def)

lemma captureStart_placedB:
  "captureStart x y placedB =
     \<lparr>mouseX = x, mouseY = y, startRotation = 0, startScale = 1, startX = 1500, startY = 1500\<rparr>"
  by (simp add: captureStart_def placedB_def newPlacedHat_def)

lemma pointer_down_scale_handle: "handleMouseDown sceneTwoHats 1540 1530 1 = sceneScaling"
proof -
  have "checkControls sceneTwoHats 1540 1530 18
        = Some (sceneTwoHats\<lparr>mode := SCALE, startInteraction := captureStart 1540 1530 placedB\<rparr>)"
    by (simp add: checkControls_selected [OF truthy_two find_selected_two corners_placedB]
        isPointInCircle_iff)
  then show ?thesis
    by (simp add: handleMouseDown_def bg_two BASE_HANDLE_RADIUS_def sceneScaling_def
        captureStart_placedB)
qed

lemma sqrt_2500: "sqrt 2500 = 50"
  by (rule real_sqrt_unique) simp_all

lemma sqrt_9: "sqrt 9 = 3"
  by (rule real_sqrt_unique) simp_all

lemma sqrt_10000: "sqrt 10000 = 100"
  by (rule real_sqrt_unique) simp_all

lemma sceneScaling_fields:
  "mode sceneScaling = SCALE"
  "selectedHatId sceneScaling = Some ''17015678''"
  "hats sceneScaling = [placedA, placedB]"
  "mouseX (startInteraction sceneScaling) = 1540"
  "mouseY (startInteraction sceneScaling) = 1530"
  "startScale (startInteraction sceneScaling) = 1"
  by (simp_all add: sceneScaling_def sceneTwoHats_def)

lemma placed_fields:
  "uid placedA = ''17001234''" "uid placedB = ''17015678''"
  "hx placedB = 1500" "hy placedB = 1500" "scale placedB = 1" "rotation placedB = 0"
  "hx placedA = 1000" "hy placedA = 1000" "scale placedA = 1" "rotation placedA = 0"
  "src placedA = ''/hats/1.png''" "src placedB = ''/hats/1.png''"
  by (simp_all add: placedA_def placedB_def newPlacedHat_def hat1_def)

lemma centerDist_B_baseline: "centerDist placedB 1540 1530 = 50"
  by (simp add: centerDist_def placed_fields sqrt_2500 fl64_ints)

lemma centerDist_B_far: "centerDist placedB 1580 1560 = 100"
  by (simp add: centerDist_def placed_fields sqrt_10000 fl64_ints)

lemma centerDist_B_near: "centerDist placedB 1500 1503 = 3"
  by (simp add: centerDist_def placed_fields sqrt_9 fl64_ints)

lemma scaleAt_B:
  "scaleAt sceneScaling placedB 1540 1530 = 1"
  "scaleAt sceneScaling placedB 1580 1560 = 2"
  "scaleAt sceneScaling placedB 1500 1500 = 3602879701896397 / 36028797018963968"
  "scaleAt sceneScaling placedB 1500 1503 = 3602879701896397 / 36028797018963968"
proof -
  show "scaleAt sceneScaling placedB 1540 1530 = 1"
    by (simp add: scaleAt_def sceneScaling_fields centerDist_B_baseline fl64_ints fl64_01)
  show "scaleAt sceneScaling placedB 1580 1560 = 2"
    by (simp add: scaleAt_def sceneScaling_fields centerDist_B_baseline centerDist_B_far
        fl64_ints fl64_01)
  have "centerDist placedB 1500 1500 = 0"
    using centerDist_centre [of placedB] by (simp add: placed_fields)
  then show "scaleAt sceneScaling placedB 1500 1500 = 3602879701896397 / 36028797018963968"
    by (simp add: scaleAt_def sceneScaling_fields centerDist_B_baseline fl64_ints fl64_01)
  show "scaleAt sceneScaling placedB 1500 1503 = 3602879701896397 / 36028797018963968"
    by (simp add: scaleAt_def sceneScaling_fields centerDist_B_baseline centerDist_B_near
        fl64_values)
qed

subsection \<open>Moves in mode ROTATE and the rotate gesture\<close>

lemma pointerAngle_rotation [simp]: "pointerAngle (h\<lparr>rotation := r\<rparr>) x y = pointerAngle h x y"
  by (simp add: pointerAngle_def)

lemma moveHat_ROTATE:
  assumes "mode s = ROTATE" and "Some (uid h) = selectedHatId s"
  shows "moveHat s x y h =
     Inr (h\<lparr>rotation := fl64 (startRotation (startInteraction s)
               + fl64 (pointerAngle h x y
                  - pointerAngle h (mouseX (startInteraction s)) (mouseY (startInteraction s))))\<rparr>)"
  using assms by (simp add: moveHat_def pointerAngle_def Math_atan2_def Math_PI_def Let_def)

lemma handleMouseMove_ROTATE:
  assumes "mode s = ROTATE" and "truthy (selectedHatId s)"
  shows "handleMouseMove s x y =
     Inr (s\<lparr>hats := map (\<lambda>k. if Some (uid k) = selectedHatId s
                 then k\<lparr>rotation := fl64 (startRotation (startInteraction s)
                        + fl64 (pointerAngle k x y
                           - pointerAngle k (mouseX (startInteraction s)) (mouseY (startInteraction s))))\<rparr>
                 else k) (hats s)\<rparr>)"
proof -
  have "mapE (moveHat s x y) (hats s) =
     Inr (map (\<lambda>k. if Some (uid k) = selectedHatId s
                 then k\<lparr>rotation := fl64 (startRotation (startInteraction s)
                        + fl64 (pointerAngle k x y
                           - pointerAngle k (mouseX (startInteraction s)) (mouseY (startInteraction s))))\<rparr>
                 else k) (hats s))"
    using assms(1) by (intro mapE_map) (simp add: moveHat_other moveHat_ROTATE)
  with assms show ?thesis by (simp add: handleMouseMove_def)
qed

lemma checkControls_ROTATE:
  assumes "checkControls s x y r = Some s'" and "mode s' = ROTATE" and "mode s \<noteq> ROTATE"
  shows "\<exists>hat. find (\<lambda>h. Some (uid h) = selectedHatId s) (hats s) = Some hat
           \<and> s' = s\<lparr>mode := ROTATE, startInteraction := captureStart x y hat\<rparr>"
  using assms
  by (auto simp: checkControls_def deleteSelectedHat_def split: if_splits option.splits)

lemma handleMouseDown_ROTATE:
  assumes "mode (handleMouseDown s x y ui) = ROTATE" and "mode s \<noteq> ROTATE"
  shows "\<exists>hat. find (\<lambda>h. Some (uid h) = selectedHatId s) (hats s) = Some hat
           \<and> handleMouseDown s x y ui = s\<lparr>mode := ROTATE, startInteraction := captureStart x y hat\<rparr>"
proof -
  from assms obtain bg where bg: "bg_image s = Some bg"
    by (cases "bg_image s") (auto simp: handleMouseDown_no_bg)
  show ?thesis
  proof (cases "checkControls s x y (BASE_HANDLE_RADIUS * ui * 1.5)")
    case None
    with assms bg show ?thesis
      by (auto simp: handleMouseDown_def Let_def split: option.splits)
  next
    case (Some s')
    with bg have eq: "handleMouseDown s x y ui = s'"
      by (simp add: handleMouseDown_def Let_def)
    with assms have "mode s' = ROTATE" by simp
    from checkControls_ROTATE [OF Some this assms(2)] eq show ?thesis by simp
  qed
qed

lemma find_unique:
  assumes "uid h = u" and "\<forall>k \<in> set xs. uid k \<noteq> u"
  shows "find (\<lambda>k. Some (uid k) = Some u) (xs @ h # ys) = Some h"
  using assms by (induction xs) simp_all

lemma map_unique:
  assumes "uid h = u" and "\<forall>k \<in> set (xs @ ys). uid k \<noteq> u"
  shows "map (\<lambda>k. if Some (uid k) = Some u then f k else k) (xs @ h # ys) = xs @ f h # ys"
proof -
  have "map (\<lambda>k. if Some (uid k) = Some u then f k else k) zs = zs" if "\<forall>k \<in> set zs. uid k \<noteq> u" for zs
    using that by (induction zs) simp_all
  with assms show ?thesis by simp
qed

text \<open>One rotate gesture: down on the rotate handle at p, move to q, up.\<close>

lemma rotate_gesture:
  assumes m: "mode s = NONE" and sel: "selectedHatId s = Some u" and ne: "u \<noteq> []"
    and hs: "hats s = xs @ h # ys" and u: "uid h = u" and uniq: "\<forall>k \<in> set (xs @ ys). uid k \<noteq> u"
    and hit: "mode (handleMouseDown s px py ui) = ROTATE"
  shows "canvas_run s [PointerDown px py ui, PointerMove qx qy, PointerUp] =
           Inr (s\<lparr>startInteraction := captureStart px py h,
                  hats := xs @ h\<lparr>rotation := fl64 (rotation h
                              + fl64 (pointerAngle h qx qy - pointerAngle h px py))\<rparr> # ys\<rparr>)"
proof -
  from uniq have ux: "\<forall>k \<in> set xs. uid k \<noteq> u" by simp
  from m have "mode s \<noteq> ROTATE" by simp
  from handleMouseDown_ROTATE [OF hit this] find_unique [OF u ux, of ys] sel hs
  have d: "handleMouseDown s px py ui = s\<lparr>mode := ROTATE, startInteraction := captureStart px py h\<rparr>"
    by simp
  have mv: "handleMouseMove (s\<lparr>mode := ROTATE, startInteraction := captureStart px py h\<rparr>) qx qy =
      Inr (s\<lparr>mode := ROTATE, startInteraction := captureStart px py h,
             hats := xs @ h\<lparr>rotation := fl64 (rotation h
                              + fl64 (pointerAngle h qx qy - pointerAngle h px py))\<rparr> # ys\<rparr>)"
    using sel ne hs map_unique [OF u uniq]
    by (simp add: handleMouseMove_ROTATE captureStart_def)
  from m show ?thesis
    by (simp add: d mv handleMouseUp_def)
qed


lemma pointerAngle_B_east: "pointerAngle placedB 1540 1500 = 0"
  by (simp add: pointerAngle_def atan2_def placed_fields fl64_ints)

lemma pointerAngle_B_north: "pointerAngle placedB 1500 1460 = - 90"
  by (simp add: pointerAngle_def atan2_def placed_fields fl64_pi fl64_half_pi fl64_values)

lemma corners_placedB_turned:
  "getTransformedCorners (loadedImages sceneTurned) placedB_turned =
     Some \<lparr>tl_corner = (1480, 1550), tr_corner = (1480, 1450), br_corner = (1520, 1450),
           bl_corner = (1520, 1550), box_width = 100, box_height = 40\<rparr>"
  by (simp add: getTransformedCorners_def sceneTurned_def sceneTwoHats_def placedB_turned_def
      placed_fields raster_100x40_def rotatePoint_def Let_def)


lemma two_fields:
  "mode sceneTwoHats = NONE" "selectedHatId sceneTwoHats = Some ''17015678''"
  "hats sceneTwoHats = [placedA] @ placedB # []"
  by (simp_all add: sceneTwoHats_def)

lemma pointer_down_rotate_handle:
  "handleMouseDown sceneTwoHats 1540 1500 2
     = sceneTwoHats\<lparr>mode := ROTATE, startInteraction := captureStart 1540 1500 placedB\<rparr>"
proof -
  have "checkControls sceneTwoHats 1540 1500 36
        = Some (sceneTwoHats\<lparr>mode := ROTATE, startInteraction := captureStart 1540 1500 placedB\<rparr>)"
    by (simp add: checkControls_selected [OF truthy_two find_selected_two corners_placedB]
        isPointInCircle_iff)
  then show ?thesis
    by (simp add: handleMouseDown_def bg_two BASE_HANDLE_RADIUS_def)
qed

lemma turned_fields:
  "truthy (selectedHatId sceneTurned)"
  "find (\<lambda>h. Some (uid h) = selectedHatId sceneTurned) (hats sceneTurned) = Some placedB_turned"
  "bg_image sceneTurned = Some \<lparr>width = 2048, height = 2048\<rparr>"
  by (simp_all add: sceneTurned_def sceneTwoHats_def placedA_def placedB_def placedB_turned_def
      newPlacedHat_def)

lemma pointer_down_rotate_handle_turned:
  "handleMouseDown sceneTurned 1500 1460 2
     = sceneTurned\<lparr>mode := ROTATE, startInteraction := captureStart 1500 1460 placedB_turned\<rparr>"
proof -
  have "checkControls sceneTurned 1500 1460 36
        = Some (sceneTurned\<lparr>mode := ROTATE, startInteraction := captureStart 1500 1460 placedB_turned\<rparr>)"
    by (simp add: checkControls_selected [OF turned_fields(1,2) corners_placedB_turned]
        isPointInCircle_iff)
  then show ?thesis
    by (simp add: handleMouseDown_def turned_fields BASE_HANDLE_RADIUS_def)
qed

subsection \<open>The rotate handle of a hat that is not upright\<close>

text \<open>
  The corners of a hat that is turned by a small angle, or by a quarter turn and a small
  angle, are not rationals; bounds on the sine and cosine of the small angle decide the
  circle tests.
\<close>

lemma small_angle:
  fixes d :: real
  assumes "0 \<le> d" "d \<le> 1 / 100"
  shows "0 \<le> sin d" "sin d \<le> 1 / 100" "99 / 100 \<le> cos d" "cos d \<le> 1"
proof -
  have dpi: "d \<le> pi" "d \<le> pi / 2" "- (pi / 2) \<le> d" using assms pi_ge_two by simp_all
  show s0: "0 \<le> sin d" using assms(1) dpi(1) by (rule sin_ge_zero)
  show s1: "sin d \<le> 1 / 100" using sin_x_le_x [OF assms(1)] assms(2) by simp
  show c1: "cos d \<le> 1" by simp
  have c0: "0 \<le> cos d" using dpi(3,2) by (rule cos_ge_zero)
  have "(sin d)\<^sup>2 \<le> (1 / 100)\<^sup>2" using s0 s1 by (rule power_mono [rotated])
  then have "9999 / 10000 \<le> (cos d)\<^sup>2" unfolding cos_squared_eq by (simp add: power2_eq_square)
  moreover have "(cos d)\<^sup>2 \<le> cos d" using c0 c1 by (simp add: power2_eq_square mult_left_le)
  ultimately show "99 / 100 \<le> cos d" by simp
qed

lemma quarter_turn_back:
  "cos (d - pi / 2) = sin d" "sin (d - pi / 2) = - cos d" for d :: real
  by (simp_all add: cos_diff sin_diff)

lemma rotate_handle_hit:
  assumes bg: "bg_image s = Some bg" and t: "truthy (selectedHatId s)"
    and f: "find (\<lambda>h. Some (uid h) = selectedHatId s) (hats s) = Some hat"
    and l: "loadedImages s (src hat) = Some raster_100x40"
    and g: "hx hat = 1500" "hy hat = 1500" "scale hat = 1"
    and cs: "cs = cos (rotation hat * pi / 180)" and sn: "sn = sin (rotation hat * pi / 180)"
    and out: "1296 < (px - (- 50 * cs + 20 * sn + 1500))\<^sup>2 + (py - (- 50 * sn - 20 * cs + 1500))\<^sup>2"
    and inn: "(px - (50 * cs + 20 * sn + 1500))\<^sup>2 + (py - (50 * sn - 20 * cs + 1500))\<^sup>2 \<le> 1296"
  shows "handleMouseDown s px py 2 = s\<lparr>mode := ROTATE, startInteraction := captureStart px py hat\<rparr>"
proof -
  obtain c where c: "getTransformedCorners (loadedImages s) hat = Some c"
    and tl: "tl_corner c = (- 50 * cs + 20 * sn + 1500, - 50 * sn - 20 * cs + 1500)"
    and tr: "tr_corner c = (50 * cs + 20 * sn + 1500, 50 * sn - 20 * cs + 1500)"
    using l g by (simp add: getTransformedCorners_def raster_100x40_def rotatePoint_def Let_def cs sn)
  have "checkControls s px py 36 = Some (s\<lparr>mode := ROTATE, startInteraction := captureStart px py hat\<rparr>)"
    using out inn by (simp add: checkControls_selected [OF t f c] isPointInCircle_iff tl tr)
  then show ?thesis
    by (simp add: handleMouseDown_def bg BASE_HANDLE_RADIUS_def)
qed


lemma square_le: "\<bar>a\<bar> \<le> m \<Longrightarrow> a\<^sup>2 \<le> m\<^sup>2" for a m :: real
  using abs_le_square_iff [of a m] by simp

lemma square_ge: "0 \<le> m \<Longrightarrow> m \<le> \<bar>a\<bar> \<Longrightarrow> m\<^sup>2 \<le> a\<^sup>2" for a m :: real
  using abs_le_square_iff [of m a] by simp

lemma canvas_run_append:
  "canvas_run s (es @ fs) = (case canvas_run s es of Inl e \<Rightarrow> Inl e | Inr s' \<Rightarrow> canvas_run s' fs)"
proof (induction es arbitrary: s)
  case Nil
  show ?case by simp
next
  case (Cons e es)
  show ?case by (cases e) (simp_all add: Cons.IH split: sum.splits)
qed

lemma tilted_fields:
  "bg_image sceneTilted = Some \<lparr>width = 2048, height = 2048\<rparr>"
  "truthy (selectedHatId sceneTilted)"
  "find (\<lambda>h. Some (uid h) = selectedHatId sceneTilted) (hats sceneTilted) = Some placedB_tilted"
  "loadedImages sceneTilted (src placedB_tilted) = Some raster_100x40"
  "mode sceneTilted = NONE" "selectedHatId sceneTilted = Some ''17015678''"
  "hats sceneTilted = [placedA] @ placedB_tilted # []"
  by (simp_all add: sceneTilted_def sceneTwoHats_def placedB_tilted_def placed_fields)

lemma placedB_tilted_fields:
  "uid placedB_tilted = ''17015678''" "hx placedB_tilted = 1500" "hy placedB_tilted = 1500"
  "scale placedB_tilted = 1" "rotation placedB_tilted = 3602879701896397 / 36028797018963968"
  by (simp_all add: placedB_tilted_def placed_fields)

lemma placedB_back_fields:
  "uid placedB_back = ''17015678''" "hx placedB_back = 1500" "hy placedB_back = 1500"
  "scale placedB_back = 1" "rotation placedB_back = - (3163075050785997 / 35184372088832)"
  "src placedB_back = ''/hats/1.png''"
  by (simp_all add: placedB_back_def placed_fields)

lemma tiltedTurned_fields:
  "bg_image sceneTiltedTurned = Some \<lparr>width = 2048, height = 2048\<rparr>"
  "truthy (selectedHatId sceneTiltedTurned)"
  "find (\<lambda>h. Some (uid h) = selectedHatId sceneTiltedTurned) (hats sceneTiltedTurned) = Some placedB_back"
  "loadedImages sceneTiltedTurned (src placedB_back) = Some raster_100x40"
  "mode sceneTiltedTurned = NONE" "selectedHatId sceneTiltedTurned = Some ''17015678''"
  "hats sceneTiltedTurned = [placedA] @ placedB_back # []"
  by (simp_all add: sceneTiltedTurned_def sceneTilted_def sceneTwoHats_def placedB_back_fields
      placed_fields)

lemma pointer_down_rotate_handle_tilted:
  "handleMouseDown sceneTilted 1540 1500 2
     = sceneTilted\<lparr>mode := ROTATE, startInteraction := captureStart 1540 1500 placedB_tilted\<rparr>"
proof -
  define d where "d = rotation placedB_tilted * pi / 180"
  define cs where "cs = cos d"
  define sn where "sn = sin d"
  have "0 \<le> d" "d \<le> 1 / 100"
    using pi_ge_two pi_less_4 by (simp_all add: d_def placedB_tilted_fields)
  from small_angle [OF this]
  have b: "0 \<le> sn" "sn \<le> 1 / 100" "99 / 100 \<le> cs" "cs \<le> 1"
    by (simp_all add: cs_def sn_def)
  have "89\<^sup>2 \<le> (1540 - (- 50 * cs + 20 * sn + 1500))\<^sup>2"
    using b by (intro square_ge) simp_all
  then have "7921 \<le> (1540 - (- 50 * cs + 20 * sn + 1500))\<^sup>2" by simp
  moreover have "0 \<le> (1500 - (- 50 * sn - 20 * cs + 1500))\<^sup>2" by (rule zero_le_power2)
  ultimately have out: "1296 < (1540 - (- 50 * cs + 20 * sn + 1500))\<^sup>2
      + (1500 - (- 50 * sn - 20 * cs + 1500))\<^sup>2"
    by linarith
  have "(1540 - (50 * cs + 20 * sn + 1500))\<^sup>2 \<le> 11\<^sup>2"
    using b by (intro square_le) simp
  then have "(1540 - (50 * cs + 20 * sn + 1500))\<^sup>2 \<le> 121" by simp
  moreover have "(1500 - (50 * sn - 20 * cs + 1500))\<^sup>2 \<le> 20\<^sup>2"
    using b by (intro square_le) simp
  then have "(1500 - (50 * sn - 20 * cs + 1500))\<^sup>2 \<le> 400" by simp
  ultimately have inn: "(1540 - (50 * cs + 20 * sn + 1500))\<^sup>2
      + (1500 - (50 * sn - 20 * cs + 1500))\<^sup>2 \<le> 1296"
    by linarith
  show ?thesis
    by (rule rotate_handle_hit [OF tilted_fields(1-4) placedB_tilted_fields(2-4) _ _ out inn])
      (simp_all add: cs_def sn_def d_def)
qed

lemma pointer_down_rotate_handle_back:
  "handleMouseDown sceneTiltedTurned 1500 1460 2
     = sceneTiltedTurned\<lparr>mode := ROTATE, startInteraction := captureStart 1500 1460 placedB_back\<rparr>"
proof -
  define d where "d = 3518437208883 / 35184372088832 * pi / 180"
  define cs where "cs = sin d"
  define sn where "sn = - cos d"
  have r: "rotation placedB_back * pi / 180 = d - pi / 2"
    by (simp add: d_def placedB_back_fields)
  have "0 \<le> d" "d \<le> 1 / 100"
    using pi_ge_two pi_less_4 by (simp_all add: d_def)
  from small_angle [OF this]
  have b: "0 \<le> cs" "cs \<le> 1 / 100" "sn \<le> - (99 / 100)" "- 1 \<le> sn"
    by (simp_all add: cs_def sn_def)
  have "89\<^sup>2 \<le> (1460 - (- 50 * sn - 20 * cs + 1500))\<^sup>2"
    using b by (intro square_ge) simp_all
  then have "7921 \<le> (1460 - (- 50 * sn - 20 * cs + 1500))\<^sup>2" by simp
  moreover have "0 \<le> (1500 - (- 50 * cs + 20 * sn + 1500))\<^sup>2" by (rule zero_le_power2)
  ultimately have out: "1296 < (1500 - (- 50 * cs + 20 * sn + 1500))\<^sup>2
      + (1460 - (- 50 * sn - 20 * cs + 1500))\<^sup>2"
    by linarith
  have "(1500 - (50 * cs + 20 * sn + 1500))\<^sup>2 \<le> 20\<^sup>2"
    using b by (intro square_le) simp
  then have "(1500 - (50 * cs + 20 * sn + 1500))\<^sup>2 \<le> 400" by simp
  moreover have "(1460 - (50 * sn - 20 * cs + 1500))\<^sup>2 \<le> 11\<^sup>2"
    using b by (intro square_le) simp
  then have "(1460 - (50 * sn - 20 * cs + 1500))\<^sup>2 \<le> 121" by simp
  ultimately have inn: "(1500 - (50 * cs + 20 * sn + 1500))\<^sup>2
      + (1460 - (50 * sn - 20 * cs + 1500))\<^sup>2 \<le> 1296"
    by linarith
  show ?thesis
    by (rule rotate_handle_hit [OF tiltedTurned_fields(1-4) placedB_back_fields(2-4) _ _ out inn])
      (simp_all add: cs_def sn_def r quarter_turn_back)
qed

lemma tilted_gesture:
  "canvas_run sceneTilted [PointerDown 1540 1500 2, PointerMove 1500 1460, PointerUp]
     = Inr sceneTiltedTurned"
proof -
  have uq: "''17015678'' \<noteq> []" "\<forall>k \<in> set ([placedA] @ []). uid k \<noteq> ''17015678''"
    by (simp_all add: placed_fields)
  have hit: "mode (handleMouseDown sceneTilted 1540 1500 2) = ROTATE"
    by (simp add: pointer_down_rotate_handle_tilted)
  show ?thesis
    using rotate_gesture [OF tilted_fields(5,6) uq(1) tilted_fields(7) placedB_tilted_fields(1)
        uq(2) hit, of 1500 1460]
    by (simp add: placedB_tilted_def pointerAngle_B_east pointerAngle_B_north placed_fields
        sceneTiltedTurned_def placedB_back_def captureStart_def fl64_values)
qed

lemma tilted_gesture_back:
  "canvas_run sceneTiltedTurned [PointerDown 1500 1460 2, PointerMove 1540 1500, PointerUp]
     = Inr (sceneTiltedTurned
             \<lparr>startInteraction :=
                \<lparr>mouseX = 1500, mouseY = 1460,
                 startRotation = - (3163075050785997 / 35184372088832),
                 startScale = 1, startX = 1500, startY = 1500\<rparr>,
              hats := [placedA, placedB\<lparr>rotation := 3518437208883 / 35184372088832\<rparr>]\<rparr>)"
proof -
  have uq: "''17015678'' \<noteq> []" "\<forall>k \<in> set ([placedA] @ []). uid k \<noteq> ''17015678''"
    by (simp_all add: placed_fields)
  have hit: "mode (handleMouseDown sceneTiltedTurned 1500 1460 2) = ROTATE"
    by (simp add: pointer_down_rotate_handle_back)
  show ?thesis
    using rotate_gesture [OF tiltedTurned_fields(5,6) uq(1) tiltedTurned_fields(7)
        placedB_back_fields(1) uq(2) hit, of 1540 1500]
    by (simp add: placedB_back_def pointerAngle_B_east pointerAngle_B_north placed_fields
        captureStart_def fl64_values)
qed

subsection \<open>The hit test of the hats\<close>







lemma handleMouseDown_controls:
  assumes "bg_image s = Some bg" and "checkControls s x y (BASE_HANDLE_RADIUS * uiScale * 1.5) = Some s'"
  shows "handleMouseDown s x y uiScale = s'"
  using assms by (simp add: handleMouseDown_def Let_def)

lemma handleMouseDown_hats:
  assumes "bg_image s = Some bg" and "checkControls s x y (BASE_HANDLE_RADIUS * uiScale * 1.5) = None"
  shows "handleMouseDown s x y uiScale =
     (case hitLoop (loadedImages s) (hats s) x y (length (hats s)) of
        Some hat \<Rightarrow>
          s\<lparr>selectedHatId := Some (uid hat),
            hats := filter (\<lambda>h. uid h \<noteq> uid hat) (hats s) @ [hat],
            mode := DRAG,
            startInteraction := captureStart x y hat\<rparr>
      | None \<Rightarrow> s\<lparr>selectedHatId := None\<rparr>)"
  using assms by (simp add: handleMouseDown_def Let_def)










subsection \<open>A hat added during a scale gesture\<close>

lemma toString_1701: "toString_nat 1701 = ''1701''"
  by code_simp

lemma firstHat_fields:
  "uid firstHat = ''17001234''" "hx firstHat = 1024" "hy firstHat = 6004799503160661 / 8796093022208"
  "scale firstHat = 1008806316530991 / 140737488355328" "rotation firstHat = 0"
  "src firstHat = ''/hats/1.png''"
  by (simp_all add: firstHat_def newPlacedHat_def hat1_def)

lemma draggedHat_fields:
  "uid draggedHat = ''17001234''" "hx draggedHat = 666" "hy draggedHat = 540"
  "scale draggedHat = 1008806316530991 / 140737488355328" "rotation draggedHat = 0"
  "src draggedHat = ''/hats/1.png''"
  by (simp_all add: draggedHat_def firstHat_fields)

text \<open>
  The baseline of a gesture is kept when a hat is added while the gesture lasts, and the
  new hat is selected: the baseline pointer can then be the centre of the selected hat,
  and a move to that same point computes 0 / 0.
\<close>

lemma sceneLateHat_reachable: "reachable sceneLateHat"
proof -
  define n1 where "n1 = initialState\<lparr>bg_image := Some \<lparr>width = 512, height = 512\<rparr>\<rparr>"
  define n2 where "n2 = n1\<lparr>loadedImages := [''/hats/1.png'' \<mapsto> raster_100x40],
                          hats := [firstHat], selectedHatId := Some ''17001234''\<rparr>"
  define n3 where "n3 = n2\<lparr>mode := DRAG,
      startInteraction := captureStart 1024 (6004799503160661 / 8796093022208) firstHat\<rparr>"
  define n4 where "n4 = n3\<lparr>hats := [draggedHat]\<rparr>"
  define n5 where "n5 = n4\<lparr>mode := NONE\<rparr>"
  define n6 where "n6 = n5\<lparr>mode := SCALE,
      startInteraction := captureStart 1024 (6004799503160661 / 8796093022208) draggedHat\<rparr>"
  have e1: "processFile initialState ''image/png'' (Some \<lparr>width = 512, height = 512\<rparr>) = n1"
    by (simp add: processFile_def n1_def initialState_def)
  have b1: "bg_image n1 = Some \<lparr>width = 512, height = 512\<rparr>" "hats n1 = []"
    "loadedImages n1 = Map.empty"
    by (simp_all add: n1_def initialState_def)
  have p2: "placeHat (hatImageOnload n1 (src hat1) raster_100x40) hat1 raster_100x40 1700 ''0.1234'' 0 0
      = Inr n2"
    by (subst placeHat_on_fresh_background)
      (simp_all add: hatImageOnload_def b1 raster_100x40_def n2_def n1_def toString_1700
        firstHat_def hat1_def initialState_def)
  have e2: "addHat n1 hat1 (Some raster_100x40) 1700 ''0.1234'' 0 0 = Inr n2"
    using p2 by (simp add: addHat_def loadHatImage_def b1)
  have c2: "getTransformedCorners (loadedImages n2) firstHat =
      Some \<lparr>tl_corner = (1024 + - (100 * (1008806316530991 / 140737488355328)) / 2,
                         6004799503160661 / 8796093022208 + - (40 * (1008806316530991 / 140737488355328)) / 2),
            tr_corner = (1024 + 100 * (1008806316530991 / 140737488355328) / 2,
                         6004799503160661 / 8796093022208 + - (40 * (1008806316530991 / 140737488355328)) / 2),
            br_corner = (1024 + 100 * (1008806316530991 / 140737488355328) / 2,
                         6004799503160661 / 8796093022208 + 40 * (1008806316530991 / 140737488355328) / 2),
            bl_corner = (1024 + - (100 * (1008806316530991 / 140737488355328)) / 2,
                         6004799503160661 / 8796093022208 + 40 * (1008806316530991 / 140737488355328) / 2),
            box_width = 100 * (1008806316530991 / 140737488355328),
            box_height = 40 * (1008806316530991 / 140737488355328)\<rparr>"
    by (simp add: getTransformedCorners_def n2_def firstHat_fields raster_100x40_def
        rotatePoint_def Let_def)
  have f2: "truthy (selectedHatId n2)"
    "find (\<lambda>h. Some (uid h) = selectedHatId n2) (hats n2) = Some firstHat"
    "bg_image n2 = Some \<lparr>width = 512, height = 512\<rparr>"
    by (simp_all add: n2_def n1_def firstHat_fields)
  have k2: "checkControls n2 1024 (6004799503160661 / 8796093022208) 18 = None"
    by (simp add: checkControls_selected [OF f2(1,2) c2] isPointInCircle_iff power2_eq_square)
  have h2: "hitLoop (loadedImages n2) (hats n2) 1024 (6004799503160661 / 8796093022208) (length (hats n2))
      = Some firstHat"
    by (simp add: n2_def hatHit_def firstHat_fields raster_100x40_def Let_def)
  have e3: "handleMouseDown n2 1024 (6004799503160661 / 8796093022208) 1 = n3"
    using handleMouseDown_hats [OF f2(3), of 1024 "6004799503160661 / 8796093022208" 1] k2 h2
    by (simp add: BASE_HANDLE_RADIUS_def n3_def n2_def firstHat_fields)
  have e4: "handleMouseMove n3 666 540 = Inr n4"
    by (simp add: handleMouseMove_def moveHat_def n3_def n2_def n4_def firstHat_fields
        captureStart_def draggedHat_def Let_def fl64_values)
  have e5: "handleMouseUp n4 = n5"
    by (simp add: handleMouseUp_def n5_def)
  have c5: "getTransformedCorners (loadedImages n5) draggedHat =
      Some \<lparr>tl_corner = (666 + - (100 * (1008806316530991 / 140737488355328)) / 2,
                         540 + - (40 * (1008806316530991 / 140737488355328)) / 2),
            tr_corner = (666 + 100 * (1008806316530991 / 140737488355328) / 2,
                         540 + - (40 * (1008806316530991 / 140737488355328)) / 2),
            br_corner = (666 + 100 * (1008806316530991 / 140737488355328) / 2,
                         540 + 40 * (1008806316530991 / 140737488355328) / 2),
            bl_corner = (666 + - (100 * (1008806316530991 / 140737488355328)) / 2,
                         540 + 40 * (1008806316530991 / 140737488355328) / 2),
            box_width = 100 * (1008806316530991 / 140737488355328),
            box_height = 40 * (1008806316530991 / 140737488355328)\<rparr>"
    by (simp add: getTransformedCorners_def n5_def n4_def n3_def n2_def draggedHat_fields
        raster_100x40_def rotatePoint_def Let_def)
  have f5: "truthy (selectedHatId n5)"
    "find (\<lambda>h. Some (uid h) = selectedHatId n5) (hats n5) = Some draggedHat"
    "bg_image n5 = Some \<lparr>width = 512, height = 512\<rparr>"
    by (simp_all add: n5_def n4_def n3_def n2_def n1_def draggedHat_fields)
  have k5: "checkControls n5 1024 (6004799503160661 / 8796093022208) 18
      = Some (n5\<lparr>mode := SCALE,
                 startInteraction := captureStart 1024 (6004799503160661 / 8796093022208) draggedHat\<rparr>)"
    by (simp add: checkControls_selected [OF f5(1,2) c5] isPointInCircle_iff power2_eq_square)
  have e6: "handleMouseDown n5 1024 (6004799503160661 / 8796093022208) 1 = n6"
    using handleMouseDown_controls [OF f5(3), of 1024 "6004799503160661 / 8796093022208" 1] k5
    by (simp add: BASE_HANDLE_RADIUS_def n6_def)
  have e7: "addHat n6 hat1 None 1701 ''0.5678'' 0.5 0.5 = Inr sceneLateHat"
    by (simp add: addHat_def loadHatImage_def n6_def n5_def n4_def n3_def n2_def n1_def
        initialState_def placeHat_def getRenderDimensions_512 js_div_def raster_100x40_def
        hat1_def Let_def toString_1701 sceneLateHat_def lateHat_def fl64_values captureStart_def
        draggedHat_fields newPlacedHat_def)
  have "reachable n1" using r_load [OF r_init] e1 by metis
  then have "reachable n2" using e2 by (rule r_add)
  then have "reachable n3" using r_down e3 by metis
  then have "reachable n4" using e4 by (rule r_move)
  then have "reachable n5" using r_up e5 by metis
  then have "reachable n6" using r_down e6 by metis
  then show ?thesis using e7 by (rule r_add)
qed

lemma sceneLateHat_move:
  "handleMouseMove sceneLateHat 1024 (6004799503160661 / 8796093022208) = Inl NaN"
  by (simp add: handleMouseMove_def moveHat_def sceneLateHat_def draggedHat_fields lateHat_def
      newPlacedHat_def js_div_def Math_sqrt_def Math_pow2_def fl64_ints Let_def)

section \<open>Loading a background\<close>

text \<open>
  Claim C6. Whatever the scene holds (any list of placed hats, any selection), when a file
  of an image type is given to \<open>processFile\<close> and its image loads, the list of placed
  hats is empty and nothing is selected afterwards; the loaded image is the background.
\<close>

theorem processFile_resets_scene:
  assumes "prefix ''image/'' file_type"
  shows "hats (processFile s file_type (Some img)) = []
         \<and> selectedHatId (processFile s file_type (Some img)) = None
         \<and> bg_image (processFile s file_type (Some img)) = Some img"
  using assms by (simp add: processFile_def)

theorem processFile_resets_scene_witness:
  "prefix ''image/'' ''image/png''
   \<and> hats sceneNoBackground \<noteq> [] \<and> selectedHatId sceneNoBackground \<noteq> None
   \<and> hats (processFile sceneNoBackground ''image/png'' (Some \<lparr>width = 512, height = 512\<rparr>)) = []
   \<and> selectedHatId (processFile sceneNoBackground ''image/png'' (Some \<lparr>width = 512, height = 512\<rparr>)) = None"
proof -
  have p: "prefix ''image/'' ''image/png''" by simp
  show ?thesis
    using processFile_resets_scene [OF p, of sceneNoBackground "\<lparr>width = 512, height = 512\<rparr>"] p
    by (simp add: sceneNoBackground_def)
qed

section \<open>The pointer while there is no background\<close>

text \<open>
  Claim C10. While no background image is loaded, \<open>handleMouseDown\<close> returns at once: the
  state (the placed hats, the selection and the mode) is the one it was given. A hat added
  then is placed at (400, 300) with scale 1, and from a state the editor can reach without
  a background every run of canvas events (pointer down, move, up) ends in the same state:
  such a hat is not selected, moved or deleted through the canvas.
\<close>

theorem pointer_down_without_background:
  assumes "bg_image s = None"
  shows "handleMouseDown s x y uiScale = s
         \<and> (reachable s \<longrightarrow> canvas_run s es = Inr s)
         \<and> (placeHat s hatToAdd img now rnd r1 r2 =
              Inr (s\<lparr>hats := hats s @ [newPlacedHat hatToAdd (toString_nat now @ drop 2 rnd) 400 300 1],
                     selectedHatId := Some (toString_nat now @ drop 2 rnd)\<rparr>))"
  using assms
  by (simp add: handleMouseDown_no_bg canvas_run_no_bg no_background_idle placeHat_def Let_def)

theorem pointer_down_without_background_witness:
  "bg_image sceneNoBackground = None
   \<and> reachable sceneNoBackground
   \<and> handleMouseDown sceneNoBackground 400 300 1 = sceneNoBackground
   \<and> canvas_run sceneNoBackground [PointerDown 400 300 1, PointerMove 500 350, PointerUp]
       = Inr sceneNoBackground
   \<and> hats sceneNoBackground = [newPlacedHat hat1 ''17001234'' 400 300 1]"
proof -
  have bg: "bg_image sceneNoBackground = None"
    by (simp add: sceneNoBackground_def initialState_def)
  have hs: "hats sceneNoBackground = [newPlacedHat hat1 ''17001234'' 400 300 1]"
    by (simp add: sceneNoBackground_def)
  show ?thesis
    using pointer_down_without_background
        [OF bg, of 400 300 1 "[PointerDown 400 300 1, PointerMove 500 350, PointerUp]"]
      bg hs sceneNoBackground_reachable
    by blast
qed

section \<open>The selection refers to a placed hat\<close>

text \<open>
  Claim C7. In every state the editor reaches (by loading a background, adding a hat,
  pointer down, move and up, and deleting the selected hat; selecting, deselecting,
  deleting and mirroring are what pointer-down does), a selected id that is not null is
  the \<open>uid\<close> of a placed hat, and no \<open>uid\<close> is empty. Deleting with no selection changes
  nothing. Deleting when the selected \<open>uid\<close> belongs to one placed hat removes that entry,
  keeps the others in order, clears the selection and sets the mode to \<open>NONE\<close>.
\<close>

theorem selection_valid:
  "(reachable s \<longrightarrow>
      (\<forall>h \<in> set (hats s). uid h \<noteq> [])
      \<and> (\<forall>u. selectedHatId s = Some u \<longrightarrow> (\<exists>h \<in> set (hats s). uid h = u)))
   \<and> (selectedHatId s = None \<longrightarrow> deleteSelectedHat s = s)
   \<and> (selectedHatId s = Some u \<and> u \<noteq> [] \<and> hats s = xs @ h # ys \<and> uid h = u
        \<and> (\<forall>k \<in> set (xs @ ys). uid k \<noteq> u)
      \<longrightarrow> hats (deleteSelectedHat s) = xs @ ys \<and> selectedHatId (deleteSelectedHat s) = None
          \<and> mode (deleteSelectedHat s) = NONE)"
proof (intro conjI impI)
  assume "reachable s"
  then have inv: "selectionInv s" by (rule reachable_selectionInv)
  then have "[] \<notin> uid ` set (hats s)"
    by (simp add: selectionInv_def uids_def)
  then show "\<forall>h \<in> set (hats s). uid h \<noteq> []"
    by (metis imageI)
  from inv show "\<forall>u. selectedHatId s = Some u \<longrightarrow> (\<exists>h \<in> set (hats s). uid h = u)"
    by (auto simp: selectionInv_def uids_def)
next
  assume "selectedHatId s = None"
  then show "deleteSelectedHat s = s" by (simp add: deleteSelectedHat_def)
next
  assume a: "selectedHatId s = Some u \<and> u \<noteq> [] \<and> hats s = xs @ h # ys \<and> uid h = u
        \<and> (\<forall>k \<in> set (xs @ ys). uid k \<noteq> u)"
  then have "filter (\<lambda>k. uid k \<noteq> u) (xs @ ys) = xs @ ys"
    by (intro filter_True) auto
  with a show "hats (deleteSelectedHat s) = xs @ ys" 
    by (simp add: deleteSelectedHat_def)
  from a show "selectedHatId (deleteSelectedHat s) = None" by (simp add: deleteSelectedHat_def)
  from a show "mode (deleteSelectedHat s) = NONE" by (simp add: deleteSelectedHat_def)
qed


theorem selection_valid_witness:
  "reachable sceneNoBackground
   \<and> selectedHatId sceneNoBackground = Some ''17001234''
   \<and> (\<exists>h \<in> set (hats sceneNoBackground). uid h = ''17001234'')
   \<and> selectedHatId initialState = None \<and> deleteSelectedHat initialState = initialState
   \<and> selectedHatId sceneTwoHats = Some ''17015678''
   \<and> hats sceneTwoHats = [placedA] @ placedB # []
   \<and> hats (deleteSelectedHat sceneTwoHats) = [placedA]
   \<and> selectedHatId (deleteSelectedHat sceneTwoHats) = None"
proof -
  have sel: "selectedHatId sceneNoBackground = Some ''17001234''"
    by (simp add: sceneNoBackground_def)
  have none: "selectedHatId initialState = None"
    by (simp add: initialState_def)
  have two: "selectedHatId sceneTwoHats = Some ''17015678'' \<and> ''17015678'' \<noteq> []
      \<and> hats sceneTwoHats = [placedA] @ placedB # [] \<and> uid placedB = ''17015678''
      \<and> (\<forall>k \<in> set ([placedA] @ []). uid k \<noteq> ''17015678'')"
    by (simp add: sceneTwoHats_def placedA_def placedB_def newPlacedHat_def)
  show ?thesis
    using selection_valid [of sceneNoBackground] selection_valid [of initialState]
      selection_valid [of sceneTwoHats "''17015678''" "[placedA]" placedB "[]"]
      sceneNoBackground_reachable sel none two
    by auto
qed

section \<open>Export\<close>

text \<open>
  Claim C9. With a background and a canvas, \<open>handleDownload\<close> draws without controls,
  hands that picture (which shows no controls) to the download link and draws again with
  controls; \<open>handleCopy\<close> draws without controls, is fulfilled with \<open>true\<close> exactly when
  the blob was made and the clipboard write resolved, with \<open>false\<close> otherwise, is never
  rejected, and in both cases ends with the canvas drawn with controls. That last drawing
  shows the box and handles of the selected hat when there is one. Without a background
  or without a canvas both return at once and the canvas is as it was.
\<close>

theorem export_restores_controls:
  "(bg_image s \<noteq> None \<longrightarrow>
      handleDownload s (Some c) = (Some (draw s True), Some (draw s False))
      \<and> handleCopy s (Some c) encoded written =
          (Fulfilled (encoded \<and> written), Some (draw s True),
           if encoded \<and> written then Some (draw s False) else None)
      \<and> frame_controls (draw s False) = None
      \<and> (\<forall>hat corners. truthy (selectedHatId s)
            \<and> find (\<lambda>h. Some (uid h) = selectedHatId s) (hats s) = Some hat
            \<and> getTransformedCorners (loadedImages s) hat = Some corners
          \<longrightarrow> frame_controls (draw s True) = Some corners))
   \<and> (bg_image s = None \<longrightarrow>
        handleDownload s (Some c) = (Some c, None)
        \<and> handleCopy s (Some c) encoded written = (Fulfilled False, Some c, None))
   \<and> handleDownload s None = (None, None)
   \<and> handleCopy s None encoded written = (Fulfilled False, None, None)
   \<and> (\<forall>err. fst (handleCopy s canvas encoded written) \<noteq> Rejected err)"
proof (intro conjI impI allI)
  assume bg: "bg_image s \<noteq> None"
  then show "handleDownload s (Some c) = (Some (draw s True), Some (draw s False))"
    by (auto simp: handleDownload_def Let_def)
  from bg show "handleCopy s (Some c) encoded written =
          (Fulfilled (encoded \<and> written), Some (draw s True),
           if encoded \<and> written then Some (draw s False) else None)"
    by (auto simp: handleCopy_def copyTry_def Let_def)
  show "frame_controls (draw s False) = None"
    by (simp add: draw_def)
  fix hat corners
  assume "truthy (selectedHatId s)
            \<and> find (\<lambda>h. Some (uid h) = selectedHatId s) (hats s) = Some hat
            \<and> getTransformedCorners (loadedImages s) hat = Some corners"
  with bg show "frame_controls (draw s True) = Some corners"
    by (auto simp: draw_def)
next
  assume bg: "bg_image s = None"
  then show "handleDownload s (Some c) = (Some c, None)"
    by (simp add: handleDownload_def)
  from bg show "handleCopy s (Some c) encoded written = (Fulfilled False, Some c, None)"
    by (simp add: handleCopy_def)
next
  show "handleDownload s None = (None, None)"
    by (simp add: handleDownload_def)
  show "handleCopy s None encoded written = (Fulfilled False, None, None)"
    by (simp add: handleCopy_def)
next
  fix err
  show "fst (handleCopy s canvas encoded written) \<noteq> Rejected err"
    by (simp add: handleCopy_def copyTry_def Let_def split: option.splits)
qed

theorem export_restores_controls_witness:
  "bg_image sceneTwoHats \<noteq> None
   \<and> snd (handleDownload sceneTwoHats (Some (draw sceneTwoHats True))) = Some (draw sceneTwoHats False)
   \<and> frame_controls (draw sceneTwoHats False) = None
   \<and> fst (handleDownload sceneTwoHats (Some (draw sceneTwoHats True))) = Some (draw sceneTwoHats True)
   \<and> handleCopy sceneTwoHats (Some (draw sceneTwoHats True)) True False =
        (Fulfilled False, Some (draw sceneTwoHats True), None)
   \<and> handleCopy sceneTwoHats (Some (draw sceneTwoHats True)) True True =
        (Fulfilled True, Some (draw sceneTwoHats True), Some (draw sceneTwoHats False))
   \<and> frame_controls (draw sceneTwoHats True) =
        Some \<lparr>tl_corner = (1450, 1480), tr_corner = (1550, 1480), br_corner = (1550, 1520),
              bl_corner = (1450, 1520), box_width = 100, box_height = 40\<rparr>
   \<and> bg_image sceneNoBackground = None
   \<and> handleDownload sceneNoBackground (Some (draw sceneNoBackground True)) =
        (Some (draw sceneNoBackground True), None)"
proof -
  have bg: "bg_image sceneTwoHats \<noteq> None"
    by (simp add: sceneTwoHats_def)
  have sel: "truthy (selectedHatId sceneTwoHats)"
    by (simp add: sceneTwoHats_def)
  have nobg: "bg_image sceneNoBackground = None"
    by (simp add: sceneNoBackground_def initialState_def)
  show ?thesis
    using export_restores_controls [of sceneTwoHats "draw sceneTwoHats True" True False]
      export_restores_controls [of sceneTwoHats "draw sceneTwoHats True" True True]
      export_restores_controls [of sceneNoBackground "draw sceneNoBackground True"]
      bg sel nobg find_selected_two corners_placedB
    by simp
qed

section \<open>The asset cache\<close>

text \<open>
  Claim C8, as amended. The cache holds the loads that have completed: when an image is
  stored for a path, a request for that path resolves with the stored image, and no run
  of cache events starts a decode of that path again; a path with no stored image is
  decoded once by a request that is followed by its \<open>onload\<close>, however many requests
  come after. (A request made while no image is stored starts a decode of its own, also
  when an earlier decode of the same path is still under way.)
\<close>

theorem asset_cache_memoizes_completed_loads:
  "(loadedImages s path = Some img \<longrightarrow>
      loadHatImage s path = Resolved img
      \<and> count_list (snd (asset_run s decodes es)) path = count_list decodes path)
   \<and> (loadedImages s path = None \<longrightarrow>
        loadHatImage s path = Decoding
        \<and> count_list (snd (asset_run s decodes (Request path # Onload path img # es))) path
            = count_list decodes path + 1)"
proof (intro conjI impI)
  assume c: "loadedImages s path = Some img"
  then show "loadHatImage s path = Resolved img"
    by (simp add: loadHatImage_def)
  from c show "count_list (snd (asset_run s decodes es)) path = count_list decodes path"
    by (simp add: asset_run_cached)
next
  assume n: "loadedImages s path = None"
  then show "loadHatImage s path = Decoding"
    by (simp add: loadHatImage_def)
  have "loadedImages (hatImageOnload s path img) path \<noteq> None"
    by (simp add: hatImageOnload_def)
  from asset_run_cached [OF this, of "decodes @ [path]" es] n
  show "count_list (snd (asset_run s decodes (Request path # Onload path img # es))) path
            = count_list decodes path + 1"
    by (simp add: loadHatImage_def)
qed

theorem asset_cache_memoizes_completed_loads_witness:
  "loadedImages sceneNoBackground ''/hats/1.png'' = Some raster_100x40
   \<and> loadHatImage sceneNoBackground ''/hats/1.png'' = Resolved raster_100x40
   \<and> count_list (snd (asset_run sceneNoBackground [] [Request ''/hats/1.png'', Request ''/hats/1.png''])) ''/hats/1.png'' = count_list [] ''/hats/1.png''
   \<and> loadedImages initialState ''/hats/1.png'' = None
   \<and> count_list (snd (asset_run initialState []
        [Request ''/hats/1.png'', Onload ''/hats/1.png'' raster_100x40, Request ''/hats/1.png'', Request ''/hats/1.png''])) ''/hats/1.png''
       = count_list [] ''/hats/1.png'' + 1"
proof -
  have c: "loadedImages sceneNoBackground ''/hats/1.png'' = Some raster_100x40"
    by (simp add: sceneNoBackground_def)
  have n: "loadedImages initialState ''/hats/1.png'' = None"
    by (simp add: initialState_def)
  show ?thesis
    using asset_cache_memoizes_completed_loads
        [of sceneNoBackground "''/hats/1.png''" raster_100x40 "[]" "[Request ''/hats/1.png'', Request ''/hats/1.png'']"]
      asset_cache_memoizes_completed_loads
        [of initialState "''/hats/1.png''" raster_100x40 "[]" "[Request ''/hats/1.png'', Request ''/hats/1.png'']"]
      c n
    by blast
qed


text \<open>
  Claim C8 as stated fails for concurrent requests: two requests for one path, made
  before the first decode has ended, start two decodes of that path.
\<close>

theorem asset_cache_concurrent_requests:
  "count_list
     (snd (asset_run initialState []
             [Request ''/hats/1.png'', Request ''/hats/1.png'',
              Onload ''/hats/1.png'' raster_100x40, Onload ''/hats/1.png'' raster_100x40]))
     ''/hats/1.png'' = 2"
  by (simp add: loadHatImage_def initialState_def hatImageOnload_def)

section \<open>The corners of a placed hat\<close>



section \<open>Render dimensions and the first hat\<close>

text \<open>
  Claim C2, as amended. For a background whose width is not 0, the dimensions of the
  backing canvas are the width and height of the background when its width is at least
  2048, and otherwise the width 2048 and the height times \<open>2048 / width\<close>, where the
  quotient and then the product are rounded to a double. A background of 512 by 512 gives
  2048 by 2048; and after such a background has loaded, adding a hat whose raster is 100
  by 40 yields one placed hat at \<open>(1024, 2048 / 3)\<close> with scale \<open>(2048 * 0.35) / 100\<close>, as
  doubles compute them: the scale is \<open>1008806316530991 / 2^47\<close>, which prints as
  7.167999999999999 and lies within \<open>10^-15\<close> of 7.168, and the ordinate is
  \<open>6004799503160661 / 2^43\<close>, which prints as 682.6666666666666. The hat has rotation 0,
  is not mirrored, and is selected.
\<close>

theorem render_dimensions_and_first_hat:
  "(MIN_CANVAS_WIDTH \<le> width img \<longrightarrow>
      getRenderDimensions img = Inr (real (width img), real (height img)))
   \<and> (0 < width img \<and> width img < MIN_CANVAS_WIDTH \<longrightarrow>
        getRenderDimensions img =
          Inr (2048, fl64 (real (height img) * fl64 (2048 / real (width img)))))
   \<and> getRenderDimensions \<lparr>width = 512, height = 512\<rparr> = Inr (2048, 2048)
   \<and> (prefix ''image/'' file_type \<and> width hatImg = 100 \<and> height hatImg = 40
        \<and> (loadedImages s (src hatToAdd) = Some hatImg
            \<or> loadedImages s (src hatToAdd) = None \<and> decoded = Some hatImg)
      \<longrightarrow> (\<exists>s'. addHat (processFile s file_type (Some \<lparr>width = 512, height = 512\<rparr>))
                    hatToAdd decoded now rnd r1 r2 = Inr s'
               \<and> hats s' =
                   [\<lparr>hat_id = hat_id hatToAdd, hat_name = hat_name hatToAdd, src = src hatToAdd,
                     uid = toString_nat now @ drop 2 rnd,
                     hx = 1024, hy = 6004799503160661 / 8796093022208,
                     scale = 1008806316530991 / 140737488355328,
                     rotation = 0, isMirrored = False\<rparr>]
               \<and> selectedHatId s' = Some (toString_nat now @ drop 2 rnd)))
   \<and> \<bar>1008806316530991 / 140737488355328 - 7.168\<bar> < (1 / 10 ^ 15 :: real)
   \<and> \<bar>6004799503160661 / 8796093022208 - 2048 / 3\<bar> < (1 / 10 ^ 12 :: real)"
proof (intro conjI impI)
  assume "MIN_CANVAS_WIDTH \<le> width img"
  then show "getRenderDimensions img = Inr (real (width img), real (height img))"
    by (rule getRenderDimensions_wide)
next
  assume "0 < width img \<and> width img < MIN_CANVAS_WIDTH"
  then show "getRenderDimensions img =
          Inr (2048, fl64 (real (height img) * fl64 (2048 / real (width img))))"
    by (simp add: getRenderDimensions_narrow)
next
  show "getRenderDimensions \<lparr>width = 512, height = 512\<rparr> = Inr (2048, 2048)"
    by (rule getRenderDimensions_512)
next
  assume a: "prefix ''image/'' file_type \<and> width hatImg = 100 \<and> height hatImg = 40
        \<and> (loadedImages s (src hatToAdd) = Some hatImg
            \<or> loadedImages s (src hatToAdd) = None \<and> decoded = Some hatImg)"
  define s1 where "s1 = processFile s file_type (Some \<lparr>width = 512, height = 512\<rparr>)"
  from a have s1: "bg_image s1 = Some \<lparr>width = 512, height = 512\<rparr>" "hats s1 = []"
    "loadedImages s1 = loadedImages s"
    by (simp_all add: s1_def processFile_def)
  from a have w: "width hatImg = 100" by simp
  from a have "loadedImages s (src hatToAdd) = Some hatImg
      \<or> loadedImages s (src hatToAdd) = None \<and> decoded = Some hatImg"
    by simp
  then consider (hit) "loadedImages s (src hatToAdd) = Some hatImg"
    | (miss) "loadedImages s (src hatToAdd) = None" "decoded = Some hatImg"
    by auto
  then have "\<exists>s'. addHat s1 hatToAdd decoded now rnd r1 r2 = Inr s'
               \<and> hats s' = [newPlacedHat hatToAdd (toString_nat now @ drop 2 rnd) 1024
                    (6004799503160661 / 8796093022208) (1008806316530991 / 140737488355328)]
               \<and> selectedHatId s' = Some (toString_nat now @ drop 2 rnd)"
  proof cases
    case hit
    with s1 w show ?thesis
      by (simp add: addHat_def loadHatImage_def placeHat_on_fresh_background)
  next
    case miss
    have "bg_image (hatImageOnload s1 (src hatToAdd) hatImg) = Some \<lparr>width = 512, height = 512\<rparr>"
      "hats (hatImageOnload s1 (src hatToAdd) hatImg) = []"
      using s1 by (simp_all add: hatImageOnload_def)
    with miss s1 w show ?thesis
      by (simp add: addHat_def loadHatImage_def placeHat_on_fresh_background)
  qed
  then show "\<exists>s'. addHat (processFile s file_type (Some \<lparr>width = 512, height = 512\<rparr>))
                    hatToAdd decoded now rnd r1 r2 = Inr s'
               \<and> hats s' =
                   [\<lparr>hat_id = hat_id hatToAdd, hat_name = hat_name hatToAdd, src = src hatToAdd,
                     uid = toString_nat now @ drop 2 rnd,
                     hx = 1024, hy = 6004799503160661 / 8796093022208,
                     scale = 1008806316530991 / 140737488355328,
                     rotation = 0, isMirrored = False\<rparr>]
               \<and> selectedHatId s' = Some (toString_nat now @ drop 2 rnd)"
    by (simp add: s1_def newPlacedHat_def)
next
  show "\<bar>1008806316530991 / 140737488355328 - 7.168\<bar> < (1 / 10 ^ 15 :: real)" by simp
  show "\<bar>6004799503160661 / 8796093022208 - 2048 / 3\<bar> < (1 / 10 ^ 12 :: real)" by simp
qed

theorem render_dimensions_and_first_hat_witness:
  "getRenderDimensions \<lparr>width = 4000, height = 3000\<rparr> = Inr (4000, 3000)
   \<and> getRenderDimensions \<lparr>width = 512, height = 256\<rparr> = Inr (2048, 1024)
   \<and> prefix ''image/'' ''image/jpeg''
   \<and> hats sceneTwoHats = [placedA, placedB]
   \<and> loadedImages sceneTwoHats (src hat1) = Some raster_100x40
   \<and> (\<exists>s'. addHat (processFile sceneTwoHats ''image/jpeg'' (Some \<lparr>width = 512, height = 512\<rparr>))
               hat1 None 1700 ''0.1234'' 0.9 0.1 = Inr s'
            \<and> hats s' =
                 [\<lparr>hat_id = ''hat-1'', hat_name = ''1'', src = ''/hats/1.png'',
                   uid = ''17001234'',
                   hx = 1024, hy = 6004799503160661 / 8796093022208,
                   scale = 1008806316530991 / 140737488355328,
                   rotation = 0, isMirrored = False\<rparr>]
            \<and> selectedHatId s' = Some ''17001234'')"
proof -
  have wide: "MIN_CANVAS_WIDTH \<le> width \<lparr>width = 4000, height = 3000\<rparr>"
    by (simp add: MIN_CANVAS_WIDTH_def)
  have narrow: "0 < width \<lparr>width = 512, height = 256\<rparr>
      \<and> width \<lparr>width = 512, height = 256\<rparr> < MIN_CANVAS_WIDTH"
    by (simp add: MIN_CANVAS_WIDTH_def)
  have pre: "prefix ''image/'' ''image/jpeg''" by simp
  have hs: "hats sceneTwoHats = [placedA, placedB]" by (simp add: sceneTwoHats_def)
  have cached: "loadedImages sceneTwoHats (src hat1) = Some raster_100x40"
    by (simp add: sceneTwoHats_def hat1_def)
  have dims: "width raster_100x40 = 100 \<and> height raster_100x40 = 40"
    by (simp add: raster_100x40_def)
  have d1: "getRenderDimensions \<lparr>width = 4000, height = 3000\<rparr>
      = Inr (real (width \<lparr>width = 4000, height = 3000\<rparr>), real (height \<lparr>width = 4000, height = 3000\<rparr>))"
    using render_dimensions_and_first_hat [of "\<lparr>width = 4000, height = 3000\<rparr>"] wide by blast
  have d2: "getRenderDimensions \<lparr>width = 512, height = 256\<rparr>
      = Inr (2048, fl64 (real (height \<lparr>width = 512, height = 256\<rparr>)
                         * fl64 (2048 / real (width \<lparr>width = 512, height = 256\<rparr>))))"
    using render_dimensions_and_first_hat [of "\<lparr>width = 512, height = 256\<rparr>"] narrow by blast
  have d3: "\<exists>s'. addHat (processFile sceneTwoHats ''image/jpeg'' (Some \<lparr>width = 512, height = 512\<rparr>))
               hat1 None 1700 ''0.1234'' 0.9 0.1 = Inr s'
            \<and> hats s' =
                 [\<lparr>hat_id = hat_id hat1, hat_name = hat_name hat1, src = src hat1,
                   uid = toString_nat 1700 @ drop 2 ''0.1234'',
                   hx = 1024, hy = 6004799503160661 / 8796093022208,
                   scale = 1008806316530991 / 140737488355328,
                   rotation = 0, isMirrored = False\<rparr>]
            \<and> selectedHatId s' = Some (toString_nat 1700 @ drop 2 ''0.1234'')"
    using render_dimensions_and_first_hat
        [of _ "''image/jpeg''" raster_100x40 sceneTwoHats hat1 None 1700 "''0.1234''" "0.9" "0.1"]
      pre cached dims
    by blast
  have e2: "fl64 (real (height \<lparr>width = 512, height = 256\<rparr>)
                  * fl64 (2048 / real (width \<lparr>width = 512, height = 256\<rparr>))) = 1024"
    by (simp add: fl64_values)
  from d1 d2 d3 pre hs cached show ?thesis
    unfolding e2 by (simp add: toString_1700 hat1_def)
qed

text \<open>
  Claim C2 as stated fails in three places. A background of width 0 has no backing
  canvas of real dimensions: \<open>2048 / 0\<close> is Infinity, and so is the height. A background
  of 49 by 49 is not scaled to 2048 by 2048: \<open>49 * (2048 / 49)\<close> is, in doubles,
  \<open>9007199254740991 / 2^42\<close> (2047.9999999999998). And the scale of the first hat on
  the canvas of 2048 by 2048 is not 7.168, the real \<open>896 / 125\<close>, and not the double
  nearest to it either (\<open>8070450532247929 / 2^50\<close>), but the double below that one.
\<close>

theorem render_dimensions_in_doubles:
  "getRenderDimensions \<lparr>width = 0, height = 512\<rparr> = Inl PosInfinity
   \<and> getRenderDimensions \<lparr>width = 49, height = 49\<rparr> = Inr (2048, 9007199254740991 / 4398046511104)
   \<and> (9007199254740991 / 4398046511104 :: real) < 2048
   \<and> placeHat (initialState\<lparr>bg_image := Some \<lparr>width = 512, height = 512\<rparr>\<rparr>)
        hat1 raster_100x40 1700 ''0.1234'' 0 0 =
       Inr (initialState
             \<lparr>bg_image := Some \<lparr>width = 512, height = 512\<rparr>,
              hats := [\<lparr>hat_id = ''hat-1'', hat_name = ''1'', src = ''/hats/1.png'',
                        uid = ''17001234'', hx = 1024, hy = 6004799503160661 / 8796093022208,
                        scale = 1008806316530991 / 140737488355328,
                        rotation = 0, isMirrored = False\<rparr>],
              selectedHatId := Some ''17001234''\<rparr>)
   \<and> (1008806316530991 / 140737488355328 :: real) \<noteq> 7.168
   \<and> fl64 7.168 = 8070450532247929 / 1125899906842624
   \<and> (1008806316530991 / 140737488355328 :: real) < 8070450532247929 / 1125899906842624"
proof -
  have a: "getRenderDimensions \<lparr>width = 0, height = 512\<rparr> = Inl PosInfinity"
    by (simp add: getRenderDimensions_zero_width)
  have b: "placeHat (initialState\<lparr>bg_image := Some \<lparr>width = 512, height = 512\<rparr>\<rparr>)
        hat1 raster_100x40 1700 ''0.1234'' 0 0 =
       Inr (initialState
             \<lparr>bg_image := Some \<lparr>width = 512, height = 512\<rparr>,
              hats := [\<lparr>hat_id = ''hat-1'', hat_name = ''1'', src = ''/hats/1.png'',
                        uid = ''17001234'', hx = 1024, hy = 6004799503160661 / 8796093022208,
                        scale = 1008806316530991 / 140737488355328,
                        rotation = 0, isMirrored = False\<rparr>],
              selectedHatId := Some ''17001234''\<rparr>)"
    by (subst placeHat_on_fresh_background)
      (simp_all add: initialState_def raster_100x40_def toString_1700 newPlacedHat_def hat1_def)
  have c: "fl64 7.168 = 8070450532247929 / 1125899906842624"
    by (subst fl64_pos_eval [of 2]) (simp_all add: rne_def)
  from a b c getRenderDimensions_49 show ?thesis by simp
qed

section \<open>Scaling\<close>

text \<open>
  Claim C4, as amended. In mode \<open>SCALE\<close>, when the distance of the baseline pointer from
  the centre of the selected hat, as the program computes it, is not 0, a pointer-move
  sets the scale of the selected hat to \<open>max(0.1, startScale * (dist / startDist))\<close>,
  evaluated in doubles, and stores no value that is not a real. That scale is at least the
  double 0.1 (\<open>3602879701896397 / 2^55\<close>) for every pointer position, and it is that
  double at the centre itself. For a baseline scale that is not negative it does not
  decrease when the computed distance of the pointer from the centre grows.
\<close>

theorem scaling_floored_and_monotone:
  assumes "mode s = SCALE" and "truthy (selectedHatId s)"
    and "\<forall>k \<in> set (hats s). Some (uid k) = selectedHatId s \<longrightarrow>
           centerDist k (mouseX (startInteraction s)) (mouseY (startInteraction s)) \<noteq> 0"
  shows "handleMouseMove s x y =
           Inr (s\<lparr>hats := map (\<lambda>k. if Some (uid k) = selectedHatId s
                                   then k\<lparr>scale := scaleAt s k x y\<rparr> else k) (hats s)\<rparr>)
         \<and> 3602879701896397 / 36028797018963968 \<le> scaleAt s h x y
         \<and> scaleAt s h (hx h) (hy h) = 3602879701896397 / 36028797018963968
         \<and> (0 \<le> startScale (startInteraction s) \<and> centerDist h x y \<le> centerDist h x' y'
              \<longrightarrow> scaleAt s h x y \<le> scaleAt s h x' y')"
proof (intro conjI impI)
  have "mapE (moveHat s x y) (hats s) =
          Inr (map (\<lambda>k. if Some (uid k) = selectedHatId s
                          then k\<lparr>scale := scaleAt s k x y\<rparr> else k) (hats s))"
    using assms(1,3) by (intro mapE_map) (simp add: moveHat_other moveHat_SCALE)
  with assms(1,2) show "handleMouseMove s x y =
           Inr (s\<lparr>hats := map (\<lambda>k. if Some (uid k) = selectedHatId s
                                   then k\<lparr>scale := scaleAt s k x y\<rparr> else k) (hats s)\<rparr>)"
    by (simp add: handleMouseMove_def)
next
  show "3602879701896397 / 36028797018963968 \<le> scaleAt s h x y"
    using scaleAt_floor [of s h x y] by (simp add: fl64_01)
  show "scaleAt s h (hx h) (hy h) = 3602879701896397 / 36028797018963968"
    using scaleAt_centre [of s h] by (simp add: fl64_01)
next
  assume "0 \<le> startScale (startInteraction s) \<and> centerDist h x y \<le> centerDist h x' y'"
  then show "scaleAt s h x y \<le> scaleAt s h x' y'" by (simp add: scaleAt_mono)
qed

theorem scaling_floored_and_monotone_witness:
  "mode sceneScaling = SCALE \<and> truthy (selectedHatId sceneScaling)
   \<and> handleMouseDown sceneTwoHats 1540 1530 1 = sceneScaling
   \<and> centerDist placedB 1540 1530 = 50 \<and> centerDist placedB 1580 1560 = 100
   \<and> handleMouseMove sceneScaling 1580 1560 = Inr (sceneScaling\<lparr>hats := [placedA, placedB\<lparr>scale := 2\<rparr>]\<rparr>)
   \<and> handleMouseMove sceneScaling 1500 1500 =
       Inr (sceneScaling\<lparr>hats := [placedA, placedB\<lparr>scale := 3602879701896397 / 36028797018963968\<rparr>]\<rparr>)
   \<and> scaleAt sceneScaling placedB 1540 1530 \<le> scaleAt sceneScaling placedB 1580 1560
   \<and> scaleAt sceneScaling placedB 1540 1530 = 1"
proof -
  have m: "mode sceneScaling = SCALE" by (rule sceneScaling_fields)
  have t: "truthy (selectedHatId sceneScaling)" by (simp add: sceneScaling_fields)
  have b: "\<forall>k \<in> set (hats sceneScaling). Some (uid k) = selectedHatId sceneScaling \<longrightarrow>
           centerDist k (mouseX (startInteraction sceneScaling)) (mouseY (startInteraction sceneScaling)) \<noteq> 0"
    by (simp add: sceneScaling_fields placed_fields centerDist_B_baseline)
  note th = scaling_floored_and_monotone [OF m t b]
  from th [of 1580 1560] have m2: "handleMouseMove sceneScaling 1580 1560
      = Inr (sceneScaling\<lparr>hats := [placedA, placedB\<lparr>scale := 2\<rparr>]\<rparr>)"
    by (simp add: sceneScaling_fields placed_fields scaleAt_B)
  from th [of 1500 1500] have m0: "handleMouseMove sceneScaling 1500 1500
      = Inr (sceneScaling\<lparr>hats := [placedA, placedB\<lparr>scale := 3602879701896397 / 36028797018963968\<rparr>]\<rparr>)"
    by (simp add: sceneScaling_fields placed_fields scaleAt_B)
  have le: "0 \<le> startScale (startInteraction sceneScaling)
      \<and> centerDist placedB 1540 1530 \<le> centerDist placedB 1580 1560"
    by (simp add: sceneScaling_fields centerDist_B_baseline centerDist_B_far)
  have mono: "scaleAt sceneScaling placedB 1540 1530 \<le> scaleAt sceneScaling placedB 1580 1560"
    using th [of 1540 1530 placedB 1580 1560] le by blast
  from m t m2 m0 mono pointer_down_scale_handle centerDist_B_baseline centerDist_B_far scaleAt_B(1)
  show ?thesis by blast
qed

text \<open>
  Claim C4 as stated fails. The scale is not strictly increasing in the distance: below
  the floor it is constant, and at distance 0 and at distance 3 from the centre the scale
  is the double 0.1 both times. And it can be NaN: in the scene \<open>sceneLateHat\<close>, which
  the editor reaches, the selected hat was added during the gesture and the baseline
  pointer is its centre, so that a move to that point computes \<open>0 / 0\<close>.
\<close>

theorem scaling_not_strictly_increasing:
  "centerDist placedB 1500 1500 = 0 \<and> centerDist placedB 1500 1503 = 3
   \<and> mode sceneScaling = SCALE
   \<and> handleMouseMove sceneScaling 1500 1500 =
       Inr (sceneScaling\<lparr>hats := [placedA, placedB\<lparr>scale := 3602879701896397 / 36028797018963968\<rparr>]\<rparr>)
   \<and> handleMouseMove sceneScaling 1500 1503 =
       Inr (sceneScaling\<lparr>hats := [placedA, placedB\<lparr>scale := 3602879701896397 / 36028797018963968\<rparr>]\<rparr>)
   \<and> reachable sceneLateHat \<and> mode sceneLateHat = SCALE
   \<and> handleMouseMove sceneLateHat 1024 (6004799503160661 / 8796093022208) = Inl NaN"
proof -
  have d0: "centerDist placedB 1500 1500 = 0"
    using centerDist_centre [of placedB] by (simp add: placed_fields)
  have mv: "handleMouseMove sceneScaling x y =
      Inr (sceneScaling\<lparr>hats := [placedA, placedB\<lparr>scale := scaleAt sceneScaling placedB x y\<rparr>]\<rparr>)" for x y
  proof -
    have "moveHat sceneScaling x y placedB = Inr (placedB\<lparr>scale := scaleAt sceneScaling placedB x y\<rparr>)"
      by (rule moveHat_SCALE) (simp_all add: sceneScaling_fields placed_fields centerDist_B_baseline)
    moreover have "moveHat sceneScaling x y placedA = Inr placedA"
      by (rule moveHat_other) (simp add: sceneScaling_fields placed_fields)
    ultimately show ?thesis
      by (simp add: handleMouseMove_def sceneScaling_fields)
  qed
  have "mode sceneLateHat = SCALE" by (simp add: sceneLateHat_def)
  with d0 centerDist_B_near mv [of 1500 1500] mv [of 1500 1503] sceneScaling_fields(1)
    sceneLateHat_reachable sceneLateHat_move
  show ?thesis by (simp add: scaleAt_B)
qed

section \<open>Rotation\<close>

text \<open>
  Claim C5, as amended. A pointer-move in mode \<open>ROTATE\<close> sets the rotation of the
  selected hat to the baseline rotation plus the angle of the pointer minus the angle of
  the baseline pointer, both taken about the centre of the hat; the difference and the sum
  are rounded to doubles, and the sum is stored as it is, with no reduction modulo 360. So
  after a rotate gesture (down on the rotate handle, move, up) the rotation is
  \<open>fl64 (r + d)\<close>, where \<open>r\<close> is the old rotation and \<open>d\<close> the rounded difference of the
  two angles, and after a second rotate gesture whose rounded difference is \<open>- d\<close> (as
  when the pointer goes back the way it came) it is \<open>fl64 (fl64 (r + d) - d)\<close>. That is
  \<open>r\<close> again, and the list of hats is restored, when \<open>r\<close> is a double and the first sum
  needs no rounding, as it is for the rotation 0 of a new hat; in general it is \<open>r\<close> only
  up to rounding.
\<close>

theorem rotation_composes_additively:
  assumes m: "mode s = NONE" and sel: "selectedHatId s = Some u" and ne: "u \<noteq> []"
    and hs: "hats s = xs @ h # ys" and u: "uid h = u" and uniq: "\<forall>k \<in> set (xs @ ys). uid k \<noteq> u"
    and hit1: "mode (handleMouseDown s px py ui) = ROTATE"
    and run1: "canvas_run s [PointerDown px py ui, PointerMove qx qy, PointerUp] = Inr s1"
    and hit2: "mode (handleMouseDown s1 px' py' ui') = ROTATE"
    and ret: "fl64 (pointerAngle h qx' qy' - pointerAngle h px' py')
               = - fl64 (pointerAngle h qx qy - pointerAngle h px py)"
  shows "hats s1 = xs @ h\<lparr>rotation :=
                        fl64 (rotation h + fl64 (pointerAngle h qx qy - pointerAngle h px py))\<rparr> # ys
         \<and> (\<exists>s2. canvas_run s1 [PointerDown px' py' ui', PointerMove qx' qy', PointerUp] = Inr s2
                \<and> hats s2 = xs @ h\<lparr>rotation :=
                      fl64 (fl64 (rotation h + fl64 (pointerAngle h qx qy - pointerAngle h px py))
                            - fl64 (pointerAngle h qx qy - pointerAngle h px py))\<rparr> # ys
                \<and> selectedHatId s2 = selectedHatId s \<and> mode s2 = NONE
                \<and> (fl64 (rotation h) = rotation h
                    \<and> fl64 (rotation h + fl64 (pointerAngle h qx qy - pointerAngle h px py))
                        = rotation h + fl64 (pointerAngle h qx qy - pointerAngle h px py)
                   \<longrightarrow> hats s2 = hats s)
                \<and> (rotation h = 0 \<longrightarrow> hats s2 = hats s))
         \<and> (mode t = ROTATE \<and> truthy (selectedHatId t) \<longrightarrow>
              handleMouseMove t x y =
                Inr (t\<lparr>hats := map (\<lambda>k. if Some (uid k) = selectedHatId t
                    then k\<lparr>rotation := fl64 (startRotation (startInteraction t)
                           + fl64 (pointerAngle k x y
                              - pointerAngle k (mouseX (startInteraction t)) (mouseY (startInteraction t))))\<rparr>
                    else k) (hats t)\<rparr>))"
proof (intro conjI impI)
  define d where "d = fl64 (pointerAngle h qx qy - pointerAngle h px py)"
  define h1 where "h1 = h\<lparr>rotation := fl64 (rotation h + d)\<rparr>"
  from rotate_gesture [OF m sel ne hs u uniq hit1, of qx qy] run1
  have s1: "s1 = s\<lparr>startInteraction := captureStart px py h, hats := xs @ h1 # ys\<rparr>"
    by (simp add: h1_def d_def)
  then show "hats s1 = xs @ h\<lparr>rotation :=
                        fl64 (rotation h + fl64 (pointerAngle h qx qy - pointerAngle h px py))\<rparr> # ys"
    by (simp add: h1_def d_def)
  from s1 m sel have m1: "mode s1 = NONE" and sel1: "selectedHatId s1 = Some u"
    and hs1: "hats s1 = xs @ h1 # ys"
    by simp_all
  from u have u1: "uid h1 = u" by (simp add: h1_def)
  have ret': "fl64 (pointerAngle h1 qx' qy' - pointerAngle h1 px' py') = - d"
    using ret by (simp add: h1_def d_def)
  have fin: "h1\<lparr>rotation := fl64 (rotation h1 + fl64 (pointerAngle h1 qx' qy' - pointerAngle h1 px' py'))\<rparr>
      = h\<lparr>rotation := fl64 (fl64 (rotation h + d) - d)\<rparr>"
    unfolding ret' by (simp add: h1_def)
  have run2: "canvas_run s1 [PointerDown px' py' ui', PointerMove qx' qy', PointerUp] =
          Inr (s1\<lparr>startInteraction := captureStart px' py' h1,
                  hats := xs @ h\<lparr>rotation := fl64 (fl64 (rotation h + d) - d)\<rparr> # ys\<rparr>)"
    using rotate_gesture [OF m1 sel1 ne hs1 u1 uniq hit2, of qx' qy'] unfolding fin .
  have exact: "h\<lparr>rotation := fl64 (fl64 (rotation h + d) - d)\<rparr> = h"
    if "fl64 (rotation h) = rotation h" "fl64 (rotation h + d) = rotation h + d"
    using that by simp
  have dd: "fl64 d = d" unfolding d_def by (rule fl64_idem)
  have zero: "h\<lparr>rotation := fl64 (fl64 (rotation h + d) - d)\<rparr> = h" if "rotation h = 0"
    using that dd by (simp add: fl64_0)
  from run2 m1 sel1 sel hs exact zero
  show "\<exists>s2. canvas_run s1 [PointerDown px' py' ui', PointerMove qx' qy', PointerUp] = Inr s2
                \<and> hats s2 = xs @ h\<lparr>rotation :=
                      fl64 (fl64 (rotation h + fl64 (pointerAngle h qx qy - pointerAngle h px py))
                            - fl64 (pointerAngle h qx qy - pointerAngle h px py))\<rparr> # ys
                \<and> selectedHatId s2 = selectedHatId s \<and> mode s2 = NONE
                \<and> (fl64 (rotation h) = rotation h
                    \<and> fl64 (rotation h + fl64 (pointerAngle h qx qy - pointerAngle h px py))
                        = rotation h + fl64 (pointerAngle h qx qy - pointerAngle h px py)
                   \<longrightarrow> hats s2 = hats s)
                \<and> (rotation h = 0 \<longrightarrow> hats s2 = hats s)"
    unfolding d_def [symmetric] by simp
next
  assume "mode t = ROTATE \<and> truthy (selectedHatId t)"
  then show "handleMouseMove t x y =
                Inr (t\<lparr>hats := map (\<lambda>k. if Some (uid k) = selectedHatId t
                    then k\<lparr>rotation := fl64 (startRotation (startInteraction t)
                           + fl64 (pointerAngle k x y
                              - pointerAngle k (mouseX (startInteraction t)) (mouseY (startInteraction t))))\<rparr>
                    else k) (hats t)\<rparr>)"
    by (simp add: handleMouseMove_ROTATE)
qed

theorem rotation_composes_additively_witness:
  "mode (handleMouseDown sceneTwoHats 1540 1500 2) = ROTATE
   \<and> canvas_run sceneTwoHats [PointerDown 1540 1500 2, PointerMove 1500 1460, PointerUp] = Inr sceneTurned
   \<and> mode (handleMouseDown sceneTurned 1500 1460 2) = ROTATE
   \<and> rotation placedB = 0
   \<and> pointerAngle placedB 1540 1500 = 0 \<and> pointerAngle placedB 1500 1460 = - 90
   \<and> hats sceneTurned = [placedA, placedB\<lparr>rotation := - 90\<rparr>]
   \<and> (\<exists>s2. canvas_run sceneTurned [PointerDown 1500 1460 2, PointerMove 1540 1500, PointerUp] = Inr s2
          \<and> hats s2 = [placedA, placedB] \<and> mode s2 = NONE)"
proof -
  have uq: "uid placedB = ''17015678''" "''17015678'' \<noteq> []"
    "\<forall>k \<in> set ([placedA] @ []). uid k \<noteq> ''17015678''"
    by (simp_all add: placed_fields)
  have hit1: "mode (handleMouseDown sceneTwoHats 1540 1500 2) = ROTATE"
    by (simp add: pointer_down_rotate_handle)
  have run1: "canvas_run sceneTwoHats [PointerDown 1540 1500 2, PointerMove 1500 1460, PointerUp]
      = Inr sceneTurned"
    using rotate_gesture [OF two_fields(1,2) uq(2) two_fields(3) uq(1,3) hit1, of 1500 1460]
    by (simp add: pointerAngle_B_east pointerAngle_B_north sceneTurned_def placedB_turned_def
        placed_fields two_fields captureStart_placedB fl64_values)
  have hit2: "mode (handleMouseDown sceneTurned 1500 1460 2) = ROTATE"
    by (simp add: pointer_down_rotate_handle_turned)
  have ret: "fl64 (pointerAngle placedB 1540 1500 - pointerAngle placedB 1500 1460)
      = - fl64 (pointerAngle placedB 1500 1460 - pointerAngle placedB 1540 1500)"
    by (simp add: pointerAngle_B_east pointerAngle_B_north fl64_values)
  note th = rotation_composes_additively
      [OF two_fields(1,2) uq(2) two_fields(3) uq(1,3) hit1 run1 hit2 ret]
  have a: "hats sceneTurned = [placedA, placedB\<lparr>rotation := - 90\<rparr>]"
    using th [THEN conjunct1]
    by (simp add: pointerAngle_B_east pointerAngle_B_north placed_fields fl64_values)
  have r0: "rotation placedB = 0" by (simp add: placed_fields)
  have b: "\<exists>s2. canvas_run sceneTurned [PointerDown 1500 1460 2, PointerMove 1540 1500, PointerUp] = Inr s2
          \<and> hats s2 = [placedA, placedB] \<and> mode s2 = NONE"
  proof -
    have hs': "hats sceneTwoHats = [placedA, placedB]" by (simp add: sceneTwoHats_def)
    from th [THEN conjunct2, THEN conjunct1] r0 obtain s2
      where "canvas_run sceneTurned [PointerDown 1500 1460 2, PointerMove 1540 1500, PointerUp] = Inr s2"
        and "hats s2 = hats sceneTwoHats" and "mode s2 = NONE"
      by blast
    with hs' show ?thesis by metis
  qed
  from hit1 run1 hit2 a b r0 pointerAngle_B_east pointerAngle_B_north show ?thesis by blast
qed

text \<open>
  Claim C5 as stated fails: the rotation is not restored exactly. The selected hat has
  rotation 0.1, the double \<open>3602879701896397 / 2^55\<close>. A rotate gesture that takes the
  pointer from the east of its centre to the north (a difference of angles of -90) stores
  \<open>- 3163075050785997 / 2^45\<close>, the double nearest to \<open>0.1 - 90\<close>; a second rotate
  gesture that takes the pointer back from the north to the east (a difference of 90)
  stores \<open>3518437208883 / 2^45\<close>, which prints as 0.09999999999999432 and is not the
  rotation the hat had.
\<close>

theorem rotation_not_restored:
  "mode sceneTilted = NONE \<and> selectedHatId sceneTilted = Some ''17015678''
   \<and> hats sceneTilted = [placedA, placedB\<lparr>rotation := 3602879701896397 / 36028797018963968\<rparr>]
   \<and> pointerAngle placedB_tilted 1500 1460 - pointerAngle placedB_tilted 1540 1500 = - 90
   \<and> pointerAngle placedB_back 1540 1500 - pointerAngle placedB_back 1500 1460 = 90
   \<and> mode (handleMouseDown sceneTilted 1540 1500 2) = ROTATE
   \<and> canvas_run sceneTilted [PointerDown 1540 1500 2, PointerMove 1500 1460, PointerUp]
       = Inr sceneTiltedTurned
   \<and> hats sceneTiltedTurned = [placedA, placedB\<lparr>rotation := - (3163075050785997 / 35184372088832)\<rparr>]
   \<and> mode sceneTiltedTurned = NONE
   \<and> mode (handleMouseDown sceneTiltedTurned 1500 1460 2) = ROTATE
   \<and> canvas_run sceneTilted
        [PointerDown 1540 1500 2, PointerMove 1500 1460, PointerUp,
         PointerDown 1500 1460 2, PointerMove 1540 1500, PointerUp]
       = Inr (sceneTiltedTurned
               \<lparr>startInteraction :=
                  \<lparr>mouseX = 1500, mouseY = 1460,
                   startRotation = - (3163075050785997 / 35184372088832),
                   startScale = 1, startX = 1500, startY = 1500\<rparr>,
                hats := [placedA, placedB\<lparr>rotation := 3518437208883 / 35184372088832\<rparr>]\<rparr>)
   \<and> (3518437208883 / 35184372088832 :: real) \<noteq> 3602879701896397 / 36028797018963968"
proof -
  have run: "canvas_run sceneTilted
        ([PointerDown 1540 1500 2, PointerMove 1500 1460, PointerUp]
         @ [PointerDown 1500 1460 2, PointerMove 1540 1500, PointerUp])
       = Inr (sceneTiltedTurned
               \<lparr>startInteraction :=
                  \<lparr>mouseX = 1500, mouseY = 1460,
                   startRotation = - (3163075050785997 / 35184372088832),
                   startScale = 1, startX = 1500, startY = 1500\<rparr>,
                hats := [placedA, placedB\<lparr>rotation := 3518437208883 / 35184372088832\<rparr>]\<rparr>)"
    unfolding canvas_run_append tilted_gesture using tilted_gesture_back by simp
  have hs: "hats sceneTilted = [placedA, placedB\<lparr>rotation := 3602879701896397 / 36028797018963968\<rparr>]"
    "hats sceneTiltedTurned = [placedA, placedB\<lparr>rotation := - (3163075050785997 / 35184372088832)\<rparr>]"
    by (simp_all add: sceneTiltedTurned_def sceneTilted_def placedB_tilted_def placedB_back_def)
  have an: "pointerAngle placedB_tilted 1500 1460 - pointerAngle placedB_tilted 1540 1500 = - 90"
    "pointerAngle placedB_back 1540 1500 - pointerAngle placedB_back 1500 1460 = 90"
    by (simp_all add: placedB_tilted_def placedB_back_def pointerAngle_B_east pointerAngle_B_north)
  have h1: "mode (handleMouseDown sceneTilted 1540 1500 2) = ROTATE"
    by (simp add: pointer_down_rotate_handle_tilted)
  have h2: "mode (handleMouseDown sceneTiltedTurned 1500 1460 2) = ROTATE"
    by (simp add: pointer_down_rotate_handle_back)
  from run hs an h1 h2 tilted_gesture tilted_fields(5,6) tiltedTurned_fields(5)
  show ?thesis by simp
qed

section \<open>Pointer-down: the order of the hit tests\<close>



end
